theory Spec2Isabelle
  imports Complex_Main
begin

section \<open>Python values shared by the model definition and the example script\<close>

text \<open>
  Exceptions are values. The first six constructors are the Python exceptions the two
  source files can raise; \<open>ConfigurationError\<close> is the error kind the specification
  names. No statement of either source file raises it: it is in the type so that the
  specification's sentences can be written down and compared with the code.
\<close>

datatype error =
    AttributeError string
  | UnboundLocalError string
  | IndexError
  | TypeError
  | AssertionError string
  | ZeroDivisionError
  | ConfigurationError

text \<open>Python's \<open>str\<close> on integers, as the f-strings of both files use it.\<close>

fun str_nat :: "nat \<Rightarrow> string" where
  "str_nat n =
     (if n < 10 then [''0123456789'' ! n]
      else str_nat (n div 10) @ [''0123456789'' ! (n mod 10)])"

declare str_nat.simps [simp del]

definition str_int :: "int \<Rightarrow> string" where
  "str_int i = (if i < 0 then CHR ''-'' # str_nat (nat (- i)) else str_nat (nat i))"

section \<open>tensorrt\_llm/models/chatglm/model.py\<close>

subsection \<open>Enumerations and constructor arguments\<close>

text \<open>The two normalisation classes imported from \<open>...layers\<close>.\<close>

datatype norm_kind = LayerNorm | RmsNorm

datatype AttentionMaskType = bidirectional | causal | bidirectionalglm

datatype PositionEmbeddingType = chatglm | rope_gptj | learned_absolute

text \<open>
  The \<open>args\<close> namespace. Attributes read on every path are plain fields; the three
  attributes that only some branches read are optional, and reading an absent one raises
  \<open>AttributeError\<close>. \<open>args.mapping\<close> and \<open>args.quant_mode\<close> are flattened to the
  members the file reads (\<open>tp_group\<close>, an opaque handle, is left out). Sizes are
  natural numbers.
\<close>

record args =
  model_name :: string
  use_cache :: bool
  num_layers :: nat
  hidden_size :: nat
  num_heads :: nat
  num_kv_heads :: nat
  max_seq_length :: nat
  ffn_hidden_size :: nat
  vocab_size :: nat
  hidden_act :: string
  norm_epsilon :: real
  apply_query_key_layer_scaling :: bool
  qkv_bias :: bool
  linear_bias :: bool
  dtype :: string
  logits_dtype :: string
  quant_mode_has_int8_kv_cache :: bool
  quant_mode_has_fp8_kv_cache :: bool
  mapping_tp_size :: nat
  mapping_rank :: nat
  max_output_len :: nat
  max_input_len :: nat
  tokens_per_block :: nat
  apply_residual_connection_post_layernorm :: "bool option"
  rmsnorm :: "bool option"
  rotary_embedding_scaling :: "real option"

text \<open>Keyword arguments of the layer constructors called by the file.\<close>

record norm_args =
  normalized_shape :: nat
  eps :: real
  elementwise_affine :: bool
  n_dtype :: string

record attention_args =
  a_hidden_size :: nat
  a_num_attention_heads :: nat
  a_num_kv_heads :: nat
  a_max_position_embeddings :: nat
  a_num_layers :: nat
  a_apply_query_key_layer_scaling :: bool
  a_attention_mask_type :: AttentionMaskType
  a_bias :: bool
  a_dtype :: string
  a_position_embedding_type :: PositionEmbeddingType
  a_rotary_embedding_base :: real
  a_rotary_embedding_scaling :: "(string \<times> real) option"
  a_use_int8_kv_cache :: bool
  a_rotary_embedding_percentage :: real
  a_tp_size :: nat
  a_tp_rank :: nat
  a_q_scaling :: real
  a_cross_attention :: bool
  a_relative_attention :: bool
  a_max_distance :: nat
  a_num_buckets :: nat
  a_instance_id :: nat
  a_dense_bias :: bool

record mlp_args =
  m_hidden_size :: nat
  m_ffn_hidden_size :: nat
  m_hidden_act :: string
  m_bias :: bool
  m_dtype :: string
  m_tp_size :: nat
  m_instance_id :: nat

record embedding_args =
  e_num_embeddings :: nat
  e_embedding_dim :: nat
  e_dtype :: string
  e_tp_size :: nat
  e_sharding_dim :: nat
  e_tp_rank :: nat
  e_instance_id :: nat

record column_linear_args =
  in_features :: nat
  out_features :: nat
  c_bias :: bool
  c_dtype :: string
  c_tp_size :: nat
  gather_output :: bool

subsection \<open>Scalars and shape tensors\<close>

text \<open>
  The Python float \<open>n ** 0.5\<close>, kept as the expression: floating-point arithmetic is
  not modelled, only where the number goes.
\<close>

datatype float_expr = Pow_half nat

text \<open>
  An entry of the shape tensor built by \<open>concat([...])\<close>: \<open>shape(t, i)\<close>, dimension
  \<open>i\<close> of a tensor, known when the graph runs, or an integer literal.
\<close>

datatype 't dim_expr = Shape 't nat | Literal nat

subsection \<open>Cache and attention parameters\<close>

text \<open>
  \<open>KeyValueCacheParams\<close> as \<open>ChatGLMModel.forward\<close> receives it: three of its members
  are lists with one entry per layer, or Python's \<open>None\<close>.
\<close>

record 't KeyValueCacheParams =
  past_key_value :: "'t option list option"
  host_past_key_value_lengths :: "'t option"
  host_max_kv_cache_lengths :: "'t option list option"
  kv_cache_block_pointers :: "'t option list option"
  cache_indirection :: "'t option"

text \<open>
  The same class as the loop of \<open>ChatGLMModel.forward\<close> instantiates it for one layer:
  one-element lists, and a single entry for \<open>host_max_kv_cache_lengths\<close>.
\<close>

record 't LayerKeyValueCacheParams =
  l_past_key_value :: "'t option list"
  l_kv_cache_block_pointers :: "'t option list"
  l_host_past_key_value_lengths :: "'t option"
  l_host_max_kv_cache_lengths :: "'t option"
  l_cache_indirection :: "'t option"

record 't AttentionParams =
  sequence_length :: "'t option"
  context_lengths :: "'t option"
  host_context_lengths :: "'t option"
  max_context_length :: "nat option"
  host_request_types :: "'t option"

text \<open>The members of \<open>default_net().plugin_config\<close> that the file reads.\<close>

record plugin_config =
  remove_input_padding :: bool
  paged_kv_cache :: bool

subsection \<open>The graph-building library\<close>

text \<open>
  The file builds a graph through \<open>tensorrt_llm.layers\<close>, \<open>tensorrt_llm.functional\<close> and
  the \<open>Tensor\<close> class, none of which is part of the two source files. They are a
  parameter of every definition below: \<open>'t\<close> is the \<open>Tensor\<close> type, a layer constructor
  maps its keyword arguments to the function the built module computes.
  \<open>Attention\<close> takes \<open>hidden_states\<close>, \<open>position_embedding\<close>, \<open>use_cache\<close>, the
  cache parameters and the attention parameters; its result is the pair of the context
  and the present key/value tensor, of which the caller keeps the second component only
  when \<open>use_cache\<close> is set (the arguments always passed as \<open>None\<close> are left out).
  \<open>gather_last_token_logits\<close> takes the hidden states, \<open>last_token_ids\<close>, which may
  be Python's \<open>None\<close>, and the \<open>remove_input_padding\<close> flag.
  The weights of a module are not modelled: two modules built from the same arguments
  are the same function, and the statements below tell them apart by the attribute of
  the object that holds them.
\<close>

record 't trt_llm =
  Embedding :: "embedding_args \<Rightarrow> 't \<Rightarrow> 't"
  Norm :: "norm_kind \<Rightarrow> norm_args \<Rightarrow> 't \<Rightarrow> 't"
  Attention :: "attention_args \<Rightarrow> 't \<Rightarrow> 't option \<Rightarrow> bool
                  \<Rightarrow> 't LayerKeyValueCacheParams \<Rightarrow> 't AttentionParams \<Rightarrow> 't \<times> 't"
  MLP :: "mlp_args \<Rightarrow> 't \<Rightarrow> 't"
  ColumnLinear :: "column_linear_args \<Rightarrow> 't \<Rightarrow> 't"
  Tensor_add :: "'t \<Rightarrow> 't \<Rightarrow> 't"
  Tensor_mul :: "'t \<Rightarrow> float_expr \<Rightarrow> 't"
  Tensor_split :: "'t \<Rightarrow> nat \<Rightarrow> nat \<Rightarrow> 't list"
  Tensor_view :: "'t \<Rightarrow> 't dim_expr list \<Rightarrow> 't"
  gather_last_token_logits :: "'t \<Rightarrow> 't option \<Rightarrow> bool \<Rightarrow> 't"
  fill_none_tensor_list :: "'t KeyValueCacheParams \<Rightarrow> nat \<Rightarrow> 't KeyValueCacheParams"

subsection \<open>ChatGLMDecoderLayer\<close>

text \<open>
  What lines 36 to 62 of \<open>__init__\<close> leave behind: the attributes \<open>alpha\<close>, \<open>norm\<close>
  and \<open>apply_residual_connection_post_layernorm\<close> of \<open>self\<close> and the local variables
  \<open>attention_mask_type\<close>, \<open>position_embedding_type\<close> and \<open>rotary_embedding_scaling\<close>.
  \<open>None\<close> in one of the first five stands for an attribute or local that was never
  assigned; \<open>rotary_embedding_scaling\<close> starts as Python's \<open>None\<close> and is otherwise
  the dictionary of a \<open>type\<close> and a \<open>factor\<close>.
\<close>

record variant =
  v_alpha :: "float_expr option"
  v_norm :: "norm_kind option"
  v_apply_residual_connection_post_layernorm :: "bool option"
  v_attention_mask_type :: "AttentionMaskType option"
  v_position_embedding_type :: "PositionEmbeddingType option"
  v_rotary_embedding_scaling :: "(string \<times> real) option"

definition no_variant :: variant where
  "no_variant =
     \<lparr>v_alpha = None, v_norm = None, v_apply_residual_connection_post_layernorm = None,
      v_attention_mask_type = None, v_position_embedding_type = None,
      v_rotary_embedding_scaling = None\<rparr>"

text \<open>
  The \<open>if\<close>/\<open>elif\<close> chain of lines 40 to 62. It has no \<open>else\<close>: for any other
  name nothing is assigned.
\<close>

definition select_variant :: "args \<Rightarrow> error + variant" where
  "select_variant a =
     (if model_name a \<in> set [''chatglm_6b''] then
        Inr (no_variant\<lparr>
          v_alpha := Some (Pow_half (2 * num_layers a)),
          v_norm := Some LayerNorm,
          v_attention_mask_type := Some bidirectional,
          v_position_embedding_type := Some chatglm\<rparr>)
      else if model_name a \<in> set [''chatglm2_6b'', ''chatglm2_6b_32k'', ''chatglm3_6b'',
                                    ''chatglm3_6b_base'', ''chatglm3_6b_32k''] then
        (case apply_residual_connection_post_layernorm a of
           None \<Rightarrow> Inl (AttributeError ''apply_residual_connection_post_layernorm'')
         | Some post \<Rightarrow>
        (case rmsnorm a of
           None \<Rightarrow> Inl (AttributeError ''rmsnorm'')
         | Some rms \<Rightarrow>
        (let v = no_variant\<lparr>
               v_apply_residual_connection_post_layernorm := Some post,
               v_norm := Some (if rms then RmsNorm else LayerNorm),
               v_attention_mask_type := Some causal,
               v_position_embedding_type := Some rope_gptj\<rparr>
         in if model_name a \<in> set [''chatglm2_6b_32k'', ''chatglm3_6b_32k''] then
              (case rotary_embedding_scaling a of
                 None \<Rightarrow> Inl (AttributeError ''rotary_embedding_scaling'')
               | Some factor \<Rightarrow>
                   Inr (v\<lparr>v_rotary_embedding_scaling := Some (''linear'', factor)\<rparr>))
            else Inr v)))
      else if model_name a \<in> set [''glm_10b''] then
        (case apply_residual_connection_post_layernorm a of
           None \<Rightarrow> Inl (AttributeError ''apply_residual_connection_post_layernorm'')
         | Some post \<Rightarrow>
             Inr (no_variant\<lparr>
               v_apply_residual_connection_post_layernorm := Some post,
               v_norm := Some LayerNorm,
               v_attention_mask_type := Some bidirectionalglm,
               v_position_embedding_type := Some learned_absolute\<rparr>))
      else Inr no_variant)"

text \<open>The object \<open>__init__\<close> builds: its attributes and its four submodules.\<close>

record 't ChatGLMDecoderLayer =
  dl_model_name :: string
  dl_use_cache :: bool
  dl_alpha :: "float_expr option"
  dl_norm :: "norm_kind option"
  dl_apply_residual_connection_post_layernorm :: "bool option"
  dl_pre_norm :: "'t \<Rightarrow> 't"
  dl_attention :: "'t \<Rightarrow> 't option \<Rightarrow> bool
                     \<Rightarrow> 't LayerKeyValueCacheParams \<Rightarrow> 't AttentionParams \<Rightarrow> 't \<times> 't"
  dl_mlp :: "'t \<Rightarrow> 't"
  dl_post_norm :: "'t \<Rightarrow> 't"

definition layer_norm_args :: "args \<Rightarrow> norm_args" where
  "layer_norm_args a =
     \<lparr>normalized_shape = hidden_size a, eps = norm_epsilon a,
      elementwise_affine = True, n_dtype = dtype a\<rparr>"

definition layer_attention_args ::
  "nat \<Rightarrow> args \<Rightarrow> AttentionMaskType \<Rightarrow> PositionEmbeddingType
     \<Rightarrow> (string \<times> real) option \<Rightarrow> attention_args" where
  "layer_attention_args layer_id a mask_type pos_type scaling =
     \<lparr>a_hidden_size = hidden_size a,
      a_num_attention_heads = num_heads a,
      a_num_kv_heads = num_kv_heads a,
      a_max_position_embeddings = max_seq_length a,
      a_num_layers = num_layers a,
      a_apply_query_key_layer_scaling = apply_query_key_layer_scaling a,
      a_attention_mask_type = mask_type,
      a_bias = qkv_bias a,
      a_dtype = dtype a,
      a_position_embedding_type = pos_type,
      a_rotary_embedding_base = 10000,
      a_rotary_embedding_scaling = scaling,
      a_use_int8_kv_cache = quant_mode_has_int8_kv_cache a,
      a_rotary_embedding_percentage = 1 / 2,
      a_tp_size = mapping_tp_size a,
      a_tp_rank = mapping_rank a,
      a_q_scaling = 1,
      a_cross_attention = False,
      a_relative_attention = False,
      a_max_distance = 0,
      a_num_buckets = 0,
      a_instance_id = layer_id * 2,
      a_dense_bias = linear_bias a\<rparr>"

definition layer_mlp_args :: "nat \<Rightarrow> args \<Rightarrow> mlp_args" where
  "layer_mlp_args layer_id a =
     \<lparr>m_hidden_size = hidden_size a,
      m_ffn_hidden_size = ffn_hidden_size a,
      m_hidden_act = hidden_act a,
      m_bias = linear_bias a,
      m_dtype = dtype a,
      m_tp_size = mapping_tp_size a,
      m_instance_id = layer_id * 2 + 1\<rparr>"

text \<open>
  \<open>ChatGLMDecoderLayer.__init__\<close>. After the chain, line 64 reads \<open>self.norm\<close>, and
  lines 78 and 81 read the two locals; each read of something never assigned raises.
\<close>

definition ChatGLMDecoderLayer_init ::
  "'t trt_llm \<Rightarrow> nat \<Rightarrow> args \<Rightarrow> error + 't ChatGLMDecoderLayer" where
  "ChatGLMDecoderLayer_init lib layer_id a =
     (case select_variant a of
        Inl e \<Rightarrow> Inl e
      | Inr v \<Rightarrow>
     (case v_norm v of
        None \<Rightarrow> Inl (AttributeError ''norm'')
      | Some nk \<Rightarrow>
     (case v_attention_mask_type v of
        None \<Rightarrow> Inl (UnboundLocalError ''attention_mask_type'')
      | Some mask_type \<Rightarrow>
     (case v_position_embedding_type v of
        None \<Rightarrow> Inl (UnboundLocalError ''position_embedding_type'')
      | Some pos_type \<Rightarrow>
          Inr \<lparr>dl_model_name = model_name a,
               dl_use_cache = use_cache a,
               dl_alpha = v_alpha v,
               dl_norm = Some nk,
               dl_apply_residual_connection_post_layernorm =
                 v_apply_residual_connection_post_layernorm v,
               dl_pre_norm = Norm lib nk (layer_norm_args a),
               dl_attention =
                 Attention lib (layer_attention_args layer_id a mask_type pos_type
                                  (v_rotary_embedding_scaling v)),
               dl_mlp = MLP lib (layer_mlp_args layer_id a),
               dl_post_norm = Norm lib nk (layer_norm_args a)\<rparr>))))"

text \<open>
  \<open>ChatGLMDecoderLayer.forward\<close>. The result is the pair \<open>(output, Some presents)\<close>
  for the tuple returned when \<open>use_cache\<close> is set and \<open>(output, None)\<close> for the bare
  tensor returned otherwise. A model name outside both lists leaves \<open>output\<close>
  unassigned.
\<close>

definition ChatGLMDecoderLayer_forward ::
  "'t trt_llm \<Rightarrow> 't ChatGLMDecoderLayer \<Rightarrow> 't \<Rightarrow> 't option
     \<Rightarrow> 't LayerKeyValueCacheParams \<Rightarrow> 't AttentionParams \<Rightarrow> error + ('t \<times> 't option)" where
  "ChatGLMDecoderLayer_forward lib self hidden_states position_ids kv_cache_params
       attention_params =
     (let norm_output = dl_pre_norm self hidden_states;
          att = dl_attention self norm_output position_ids (dl_use_cache self)
                  kv_cache_params attention_params;
          attention_output = fst att;
          presents = (if dl_use_cache self then Some (snd att) else None)
      in if dl_model_name self \<in> set [''chatglm_6b''] then
           (case dl_alpha self of
              None \<Rightarrow> Inl (AttributeError ''alpha'')
            | Some alpha \<Rightarrow>
                (let residual = norm_output;
                     norm_input = Tensor_add lib (Tensor_mul lib residual alpha) attention_output;
                     norm_output = dl_post_norm self norm_input;
                     mlp_output = dl_mlp self norm_output;
                     residual = norm_output;
                     output = Tensor_add lib (Tensor_mul lib residual alpha) mlp_output
                 in Inr (output, presents)))
         else if dl_model_name self \<in> set [''chatglm2_6b'', ''chatglm2_6b_32k'',
                    ''chatglm3_6b'', ''chatglm3_6b_base'', ''chatglm3_6b_32k'', ''glm_10b''] then
           (case dl_apply_residual_connection_post_layernorm self of
              None \<Rightarrow> Inl (AttributeError ''apply_residual_connection_post_layernorm'')
            | Some post \<Rightarrow>
                (let residual = (if post then norm_output else hidden_states);
                     norm_input = Tensor_add lib residual attention_output;
                     norm_output = dl_post_norm self norm_input;
                     mlp_output = dl_mlp self norm_output;
                     residual = (if post then norm_output else norm_input);
                     output = Tensor_add lib residual mlp_output
                 in Inr (output, presents)))
         else Inl (UnboundLocalError ''output''))"

subsection \<open>ChatGLMModel\<close>

record 't ChatGLMModel =
  gm_model_name :: string
  gm_norm :: "norm_kind option"
  gm_use_cache :: bool
  gm_embedding :: "'t \<Rightarrow> 't"
  gm_position_embeddings :: "('t \<Rightarrow> 't) option"
  gm_block_embeddings :: "('t \<Rightarrow> 't) option"
  gm_layers :: "'t ChatGLMDecoderLayer list"
  gm_final_norm :: "'t \<Rightarrow> 't"

definition token_embedding_args :: "args \<Rightarrow> embedding_args" where
  "token_embedding_args a =
     \<lparr>e_num_embeddings = vocab_size a, e_embedding_dim = hidden_size a, e_dtype = dtype a,
      e_tp_size = 1, e_sharding_dim = 0, e_tp_rank = 0, e_instance_id = num_layers a * 2\<rparr>"

definition position_embedding_args :: "args \<Rightarrow> embedding_args" where
  "position_embedding_args a =
     \<lparr>e_num_embeddings = max_seq_length a + 1, e_embedding_dim = hidden_size a,
      e_dtype = dtype a, e_tp_size = 1, e_sharding_dim = 0, e_tp_rank = 0,
      e_instance_id = num_layers a * 2\<rparr>"

text \<open>
  The generator \<open>ChatGLMDecoderLayer(i, args) for i in range(args.num_layers)\<close> consumed
  by \<open>ModuleList\<close>: the layers are built in order and the first exception ends the
  construction.
\<close>

fun build_layers ::
  "'t trt_llm \<Rightarrow> args \<Rightarrow> nat list \<Rightarrow> error + 't ChatGLMDecoderLayer list" where
  "build_layers lib a [] = Inr []"
| "build_layers lib a (i # rest) =
     (case ChatGLMDecoderLayer_init lib i a of
        Inl e \<Rightarrow> Inl e
      | Inr layer \<Rightarrow>
          (case build_layers lib a rest of
             Inl e \<Rightarrow> Inl e
           | Inr layers \<Rightarrow> Inr (layer # layers)))"

text \<open>
  \<open>ChatGLMModel.__init__\<close>. The chain of lines 182 to 188 has no \<open>else\<close> either, so
  \<open>self.norm\<close> may be left unassigned; it is read at line 227, after the layers are
  built.
\<close>

definition ChatGLMModel_init :: "'t trt_llm \<Rightarrow> args \<Rightarrow> error + 't ChatGLMModel" where
  "ChatGLMModel_init lib a =
     (let norm_opt =
            (if model_name a \<in> set [''chatglm_6b'', ''glm_10b''] then Some LayerNorm
             else if model_name a \<in> set [''chatglm2_6b'', ''chatglm2_6b_32k'', ''chatglm3_6b'',
                                           ''chatglm3_6b_base'', ''chatglm3_6b_32k'']
             then Some RmsNorm
             else None);
          embedding = Embedding lib (token_embedding_args a);
          position_embeddings =
            (if model_name a \<in> set [''glm_10b'']
             then Some (Embedding lib (position_embedding_args a)) else None);
          block_embeddings =
            (if model_name a \<in> set [''glm_10b'']
             then Some (Embedding lib (position_embedding_args a)) else None)
      in case build_layers lib a [0 ..< num_layers a] of
           Inl e \<Rightarrow> Inl e
         | Inr layers \<Rightarrow>
             (case norm_opt of
                None \<Rightarrow> Inl (AttributeError ''norm'')
              | Some nk \<Rightarrow>
                  Inr \<lparr>gm_model_name = model_name a,
                       gm_norm = Some nk,
                       gm_use_cache = use_cache a,
                       gm_embedding = embedding,
                       gm_position_embeddings = position_embeddings,
                       gm_block_embeddings = block_embeddings,
                       gm_layers = layers,
                       gm_final_norm = Norm lib nk (layer_norm_args a)\<rparr>))"

text \<open>Python's \<open>xs[i]\<close> for a non-negative index.\<close>

definition list_index :: "'a list \<Rightarrow> nat \<Rightarrow> error + 'a" where
  "list_index xs i = (if i < length xs then Inr (xs ! i) else Inl IndexError)"

text \<open>
  Lines 242 to 257 of \<open>ChatGLMModel.forward\<close>: the hidden states handed to the first
  decoder layer. \<open>position_ids\<close> defaults to \<open>None\<close>, on which \<open>split\<close> is an
  attribute error.
\<close>

definition embed_inputs ::
  "'t trt_llm \<Rightarrow> ('t, 'm) ChatGLMModel_scheme \<Rightarrow> 't \<Rightarrow> 't option \<Rightarrow> error + 't" where
  "embed_inputs lib self input_ids position_ids =
     (let hidden_states = gm_embedding self input_ids
      in if gm_model_name self \<in> set [''glm_10b''] then
           (case position_ids of
              None \<Rightarrow> Inl (AttributeError ''split'')
            | Some pids \<Rightarrow>
           (let position_ids_list = Tensor_split lib pids 1 1
            in case gm_position_embeddings self of
                 None \<Rightarrow> Inl (AttributeError ''position_embeddings'')
               | Some position_embeddings \<Rightarrow>
              (case list_index position_ids_list 0 of
                 Inl e \<Rightarrow> Inl e
               | Inr column0 \<Rightarrow>
              (case gm_block_embeddings self of
                 None \<Rightarrow> Inl (AttributeError ''block_embeddings'')
               | Some block_embeddings \<Rightarrow>
              (case list_index position_ids_list 1 of
                 Inl e \<Rightarrow> Inl e
               | Inr column1 \<Rightarrow>
              (let position_embedding = position_embeddings column0;
                   block_embedding = block_embeddings column1;
                   position_embedding = Tensor_add lib position_embedding block_embedding;
                   position_embedding =
                     Tensor_view lib position_embedding
                       [Shape input_ids 0, Shape input_ids 1, Literal 4096]
               in Inr (Tensor_add lib hidden_states position_embedding)))))))
         else Inr hidden_states)"

text \<open>
  The loop of lines 264 to 284 over the zipped layers and cache entries, with the loop
  variables \<open>hidden_states\<close> and \<open>presents\<close> as accumulators. \<open>hidden_states\<close> is
  assigned inside \<open>if self.use_cache\<close> only. With \<open>self.use_cache\<close> set, a layer that
  returned a bare tensor has no second component to append.
\<close>

fun run_layers ::
  "'t trt_llm \<Rightarrow> bool \<Rightarrow> 't KeyValueCacheParams \<Rightarrow> 't AttentionParams \<Rightarrow> 't option
     \<Rightarrow> ('t ChatGLMDecoderLayer \<times> 't option \<times> 't option \<times> 't option) list
     \<Rightarrow> 't \<Rightarrow> 't list \<Rightarrow> error + ('t \<times> 't list)" where
  "run_layers lib uc kv ap position_ids [] hidden_states presents =
     Inr (hidden_states, presents)"
| "run_layers lib uc kv ap position_ids ((layer, past, pointer, max_kv_cache_length) # rest)
       hidden_states presents =
     (case ChatGLMDecoderLayer_forward lib layer hidden_states position_ids
             \<lparr>l_past_key_value = [past],
              l_kv_cache_block_pointers = [pointer],
              l_host_past_key_value_lengths = host_past_key_value_lengths kv,
              l_host_max_kv_cache_lengths = max_kv_cache_length,
              l_cache_indirection = cache_indirection kv\<rparr>
             ap of
        Inl e \<Rightarrow> Inl e
      | Inr layer_output \<Rightarrow>
          (if uc then
             (case snd layer_output of
                None \<Rightarrow> Inl TypeError
              | Some present \<Rightarrow>
                  run_layers lib uc kv ap position_ids rest (fst layer_output)
                    (presents @ [present]))
           else run_layers lib uc kv ap position_ids rest hidden_states presents))"

text \<open>
  \<open>ChatGLMModel.forward\<close>. Zipping a member that is still \<open>None\<close> after
  \<open>fill_none_tensor_list\<close> is a type error. The result is \<open>(hidden_states, Some presents)\<close>
  for the returned tuple and \<open>(hidden_states, None)\<close> for the bare tensor.
\<close>

definition ChatGLMModel_forward ::
  "'t trt_llm \<Rightarrow> ('t, 'm) ChatGLMModel_scheme \<Rightarrow> 't \<Rightarrow> 't option
     \<Rightarrow> 't KeyValueCacheParams \<Rightarrow> 't AttentionParams \<Rightarrow> error + ('t \<times> 't list option)" where
  "ChatGLMModel_forward lib self input_ids position_ids kv_cache_params attention_params =
     (case embed_inputs lib self input_ids position_ids of
        Inl e \<Rightarrow> Inl e
      | Inr hidden_states \<Rightarrow>
     (let kv = fill_none_tensor_list lib kv_cache_params (length (gm_layers self))
      in case past_key_value kv of
           None \<Rightarrow> Inl TypeError
         | Some pasts \<Rightarrow>
        (case kv_cache_block_pointers kv of
           None \<Rightarrow> Inl TypeError
         | Some pointers \<Rightarrow>
        (case host_max_kv_cache_lengths kv of
           None \<Rightarrow> Inl TypeError
         | Some max_lengths \<Rightarrow>
        (case run_layers lib (gm_use_cache self) kv attention_params position_ids
                (zip (gm_layers self) (zip pasts (zip pointers max_lengths)))
                hidden_states [] of
           Inl e \<Rightarrow> Inl e
         | Inr (hidden_states, presents) \<Rightarrow>
             Inr (gm_final_norm self hidden_states,
                  if gm_use_cache self then Some presents else None))))))"

subsection \<open>The decoder stack as the specification has it\<close>

text \<open>
  The specification's steps 3 and 4 of the decoder stack: the layers run in order, each
  on the hidden states its predecessor returned, and the final norm is applied to what
  the last one returned. The cache entries are those of the loop in the source.
\<close>

fun spec_thread_layers ::
  "'t trt_llm \<Rightarrow> 't KeyValueCacheParams \<Rightarrow> 't AttentionParams \<Rightarrow> 't option
     \<Rightarrow> ('t ChatGLMDecoderLayer \<times> 't option \<times> 't option \<times> 't option) list
     \<Rightarrow> 't \<Rightarrow> error + 't" where
  "spec_thread_layers lib kv ap position_ids [] hidden_states = Inr hidden_states"
| "spec_thread_layers lib kv ap position_ids ((layer, past, pointer, max_kv_cache_length) # rest)
       hidden_states =
     (case ChatGLMDecoderLayer_forward lib layer hidden_states position_ids
             \<lparr>l_past_key_value = [past],
              l_kv_cache_block_pointers = [pointer],
              l_host_past_key_value_lengths = host_past_key_value_lengths kv,
              l_host_max_kv_cache_lengths = max_kv_cache_length,
              l_cache_indirection = cache_indirection kv\<rparr>
             ap of
        Inl e \<Rightarrow> Inl e
      | Inr layer_output \<Rightarrow> spec_thread_layers lib kv ap position_ids rest (fst layer_output))"

definition spec_forward ::
  "'t trt_llm \<Rightarrow> ('t, 'm) ChatGLMModel_scheme \<Rightarrow> 't \<Rightarrow> 't option
     \<Rightarrow> 't KeyValueCacheParams \<Rightarrow> 't AttentionParams \<Rightarrow> error + 't" where
  "spec_forward lib self input_ids position_ids kv_cache_params attention_params =
     (case embed_inputs lib self input_ids position_ids of
        Inl e \<Rightarrow> Inl e
      | Inr hidden_states \<Rightarrow>
     (let kv = fill_none_tensor_list lib kv_cache_params (length (gm_layers self))
      in case past_key_value kv of
           None \<Rightarrow> Inl TypeError
         | Some pasts \<Rightarrow>
        (case kv_cache_block_pointers kv of
           None \<Rightarrow> Inl TypeError
         | Some pointers \<Rightarrow>
        (case host_max_kv_cache_lengths kv of
           None \<Rightarrow> Inl TypeError
         | Some max_lengths \<Rightarrow>
        (case spec_thread_layers lib kv attention_params position_ids
                (zip (gm_layers self) (zip pasts (zip pointers max_lengths)))
                hidden_states of
           Inl e \<Rightarrow> Inl e
         | Inr hidden_states \<Rightarrow> Inr (gm_final_norm self hidden_states))))))"

subsection \<open>ChatGLMHeadModel\<close>

text \<open>
  Modelled from the spec: \<open>pad_vocab_size\<close> of \<open>tensorrt_llm._utils\<close> is not among the
  source files. The specification says the vocabulary size is padded to a multiple
  required by parallel sharding: the least multiple of \<open>tp_size\<close> that is not below
  \<open>vocab_size\<close>. The specification says nothing for a degree of 0.
\<close>

definition pad_vocab_size :: "nat \<Rightarrow> nat \<Rightarrow> nat" where
  "pad_vocab_size vocab tp = ((vocab + tp - 1) div tp) * tp"

text \<open>
  The subclass extends the object of \<open>ChatGLMModel\<close>; \<open>model_name\<close> and \<open>use_cache\<close>
  are the attributes of the base class, assigned a second time with the same values.
  Data types are written by name, \<open>str_dtype_to_trt\<close> being the map from names to
  TensorRT's enumeration.
\<close>

record 't ChatGLMHeadModel = "'t ChatGLMModel" +
  hm_kv_dtype :: string
  hm_dtype :: string
  hm_logits_dtype :: string
  hm_hidden_size :: nat
  hm_mapping_tp_size :: nat
  hm_max_num_tokens :: nat
  hm_num_heads :: nat
  hm_num_kv_heads :: nat
  hm_num_layers :: nat
  hm_tokens_per_block :: nat
  hm_lm_head :: "'t \<Rightarrow> 't"

definition lm_head_args :: "args \<Rightarrow> column_linear_args" where
  "lm_head_args a =
     \<lparr>in_features = hidden_size a,
      out_features = pad_vocab_size (vocab_size a) (mapping_tp_size a),
      c_bias = False,
      c_dtype = dtype a,
      c_tp_size = mapping_tp_size a,
      gather_output = True\<rparr>"

text \<open>\<open>ChatGLMHeadModel.init\<close>.\<close>

definition ChatGLMHeadModel_init :: "'t trt_llm \<Rightarrow> args \<Rightarrow> error + 't ChatGLMHeadModel" where
  "ChatGLMHeadModel_init lib a =
     (case ChatGLMModel_init lib a of
        Inl e \<Rightarrow> Inl e
      | Inr base \<Rightarrow>
          Inr (ChatGLMModel.extend base
            (ChatGLMHeadModel.fields
               (if quant_mode_has_int8_kv_cache a then ''int8''
                else if quant_mode_has_fp8_kv_cache a then ''fp8''
                else dtype a)
               (dtype a)
               (logits_dtype a)
               (hidden_size a)
               (mapping_tp_size a)
               (max_output_len a + max_input_len a)
               (num_heads a)
               (num_kv_heads a)
               (num_layers a)
               (tokens_per_block a)
               (ColumnLinear lib (lm_head_args a)))))"

text \<open>
  What \<open>forward\<close> returns: the logits alone, or the tuple of the logits and the
  presents.
\<close>

datatype 't head_output = Logits 't | LogitsAndPresents 't "'t list"

text \<open>The logits tensor of either form of result.\<close>

fun logits :: "'t head_output \<Rightarrow> 't" where
  "logits (Logits t) = t"
| "logits (LogitsAndPresents t presents) = t"

text \<open>
  \<open>mark_output\<close> registers a tensor as an output of the network under a name, with a
  data type. The calls of one \<open>forward\<close> are returned in order, next to its result.
\<close>

type_synonym 't marked_output = "string \<times> string \<times> 't"

definition mark_presents :: "string \<Rightarrow> 't list \<Rightarrow> 't marked_output list" where
  "mark_presents kv_dtype presents =
     map (\<lambda>(i, present). (''present_key_value_'' @ str_nat i, kv_dtype, present))
       (zip [0 ..< length presents] presents)"

text \<open>
  \<open>ChatGLMHeadModel.forward\<close>, with \<open>default_net().plugin_config\<close> as the argument
  \<open>net\<close>. \<open>presents\<close> is a local assigned only under \<open>self.use_cache\<close>.
  \<open>last_token_ids\<close> defaults to \<open>None\<close>, as \<open>position_ids\<close> does, and is handed to
  \<open>gather_last_token_logits\<close> as it comes.
\<close>

definition ChatGLMHeadModel_forward ::
  "'t trt_llm \<Rightarrow> plugin_config \<Rightarrow> ('t, 'm) ChatGLMHeadModel_scheme \<Rightarrow> 't \<Rightarrow> 't option
     \<Rightarrow> 't option \<Rightarrow> 't KeyValueCacheParams \<Rightarrow> 't AttentionParams
     \<Rightarrow> error + ('t head_output \<times> 't marked_output list)" where
  "ChatGLMHeadModel_forward lib net self input_ids position_ids last_token_ids
       kv_cache_params attention_params =
     (case ChatGLMModel_forward lib self input_ids position_ids kv_cache_params
             attention_params of
        Inl e \<Rightarrow> Inl e
      | Inr (hidden_states, presents) \<Rightarrow>
          (let hidden_states =
                 gather_last_token_logits lib hidden_states last_token_ids
                   (remove_input_padding net);
               lm_logits = hm_lm_head self hidden_states;
               marked = [(''logits'', hm_logits_dtype self, lm_logits)]
           in if gm_use_cache self \<and> paged_kv_cache net = False then
                (case presents of
                   None \<Rightarrow> Inl (UnboundLocalError ''presents'')
                 | Some presents \<Rightarrow>
                     Inr (LogitsAndPresents lm_logits presents,
                          marked @ mark_presents (hm_kv_dtype self) presents))
              else Inr (Logits lm_logits, marked)))"

text \<open>
  The flag \<open>position_encoding_2d\<close> that \<open>prepare_inputs\<close> passes to
  \<open>prepare_basic_inputs\<close> (line 448): the input contract has two-dimensional position
  ids for these names.
\<close>

definition position_encoding_2d :: "string \<Rightarrow> bool" where
  "position_encoding_2d name \<longleftrightarrow> name \<in> set [''chatglm_6b'', ''glm_10b'']"

text \<open>The identifiers some branch of the file names.\<close>

definition supported_models :: "string list" where
  "supported_models =
     [''chatglm_6b'', ''chatglm2_6b'', ''chatglm2_6b_32k'', ''chatglm3_6b'',
      ''chatglm3_6b_base'', ''chatglm3_6b_32k'', ''glm_10b'']"

section \<open>examples/bloom/run.py\<close>

text \<open>
  The script's inputs: the parsed command line, the engine's \<open>config.json\<close> with the
  keys the script reads, and what the MPI runtime reports. The descriptor is taken to be
  well formed: every key is present and holds an integer where the script computes with
  it.
\<close>

record cli =
  cli_max_output_len :: int
  cli_max_kv_cache_len :: "int option"
  cli_log_level :: string
  cli_engine_dir :: string
  cli_tokenizer_dir :: string
  cli_input_text :: string

record builder_config =
  precision :: string
  tensor_parallel :: int
  b_num_heads :: int
  b_hidden_size :: int
  b_vocab_size :: int
  b_num_layers :: int

record engine_descriptor =
  gpt_attention_plugin :: "string option"
  builder :: builder_config

record runtime =
  mpi_world_size :: int
  mpi_rank :: int
  gpus_per_node :: int

record ModelConfig =
  mc_num_heads :: int
  mc_num_kv_heads :: int
  mc_hidden_size :: int
  mc_vocab_size :: int
  mc_num_layers :: int
  mc_gpt_attention_plugin :: "string option"
  mc_dtype :: string

text \<open>
  The calls the script makes into its collaborators, in the order of the file. The
  collaborators themselves (tokenizer, engine file, generation session) are outside the
  file; a call is recorded with the arguments the script computes for it.
\<close>

datatype action =
    SetLogLevel string
  | ReadConfig string
  | SetDevice int
  | LoadTokenizer string
  | Encode string
  | ReadEngine string int int
  | CreateSession ModelConfig int int
  | SessionSetup int "int option"
  | Decode
  | PrintOutput

definition world_size_message :: "int \<Rightarrow> int \<Rightarrow> string" where
  "world_size_message engine_ws runtime_ws =
     ''Engine world size ('' @ str_int engine_ws @ '') != Runtime world size (''
       @ str_int runtime_ws @ '')''"

text \<open>
  The body under \<open>if __name__ == '__main__'\<close>: the calls made, and the exception that
  ended the run, if any. \<open>//\<close> and \<open>%\<close> raise on a zero divisor.
\<close>

definition main :: "cli \<Rightarrow> engine_descriptor \<Rightarrow> runtime \<Rightarrow> action list \<times> error option" where
  "main cl config rt =
     (let started = [SetLogLevel (cli_log_level cl), ReadConfig (cli_engine_dir cl)];
          use_gpt_attention_plugin = gpt_attention_plugin config;
          dtype = precision (builder config);
          world_size = tensor_parallel (builder config)
      in if \<not> (world_size = mpi_world_size rt) then
           (started, Some (AssertionError (world_size_message world_size (mpi_world_size rt))))
         else if world_size = 0 then (started, Some ZeroDivisionError)
         else
           (let num_heads = b_num_heads (builder config) div world_size;
                hidden_size = b_hidden_size (builder config) div world_size;
                vocab_size = b_vocab_size (builder config);
                num_layers = b_num_layers (builder config);
                runtime_rank = mpi_rank rt
            in if gpus_per_node rt = 0 then (started, Some ZeroDivisionError)
               else
                 (let model_config =
                        \<lparr>mc_num_heads = num_heads,
                         mc_num_kv_heads = num_heads,
                         mc_hidden_size = hidden_size,
                         mc_vocab_size = vocab_size,
                         mc_num_layers = num_layers,
                         mc_gpt_attention_plugin = use_gpt_attention_plugin,
                         mc_dtype = dtype\<rparr>
                  in (started @
                      [SetDevice (runtime_rank mod gpus_per_node rt),
                       LoadTokenizer (cli_tokenizer_dir cl),
                       Encode (cli_input_text cl),
                       ReadEngine dtype world_size runtime_rank,
                       CreateSession model_config world_size runtime_rank,
                       SessionSetup (cli_max_output_len cl) (cli_max_kv_cache_len cl),
                       Decode,
                       PrintOutput],
                      None))))"

section \<open>Two instances of the library\<close>

text \<open>
  \<open>fill_none_tensor_list\<close> of \<open>KeyValueCacheParams\<close> is not among the source files
  either. Both instances take it by its name and its use before the loop: a member that
  is \<open>None\<close> becomes a list of \<open>n\<close> entries \<open>None\<close>, a member that is a list is kept.
\<close>

definition fill_none :: "'t KeyValueCacheParams \<Rightarrow> nat \<Rightarrow> 't KeyValueCacheParams" where
  "fill_none kv n =
     kv\<lparr>past_key_value :=
           (case past_key_value kv of None \<Rightarrow> Some (replicate n None) | Some l \<Rightarrow> Some l),
         host_max_kv_cache_lengths :=
           (case host_max_kv_cache_lengths kv of
              None \<Rightarrow> Some (replicate n None) | Some l \<Rightarrow> Some l),
         kv_cache_block_pointers :=
           (case kv_cache_block_pointers kv of
              None \<Rightarrow> Some (replicate n None) | Some l \<Rightarrow> Some l)\<rparr>"

subsection \<open>The graph as a term\<close>

text \<open>
  The library builds a computation graph. In this instance a tensor is the term of the
  operations that produce it, so that two graphs are equal exactly when they are wired
  alike. An attention module yields two nodes, its context and its present key/value
  tensor; both record the module's arguments, its input, the position tensor, the
  \<open>use_cache\<close> flag and the layer's \<open>past_key_value\<close> list. How many pieces a split
  has depends on the shape of its operand, which a term does not carry: the number of
  pieces is the parameter \<open>columns\<close> of the instance.
\<close>

datatype node =
    Input string
  | EmbeddingNode embedding_args node
  | NormNode norm_kind norm_args node
  | AttentionNode attention_args node "node option" bool "node option list"
  | PresentNode attention_args node "node option" bool "node option list"
  | MLPNode mlp_args node
  | ColumnLinearNode column_linear_args node
  | Add node node
  | Mul node float_expr
  | SplitPiece node nat nat nat
  | View node "node dim_expr list"
  | GatherLastToken node "node option" bool

definition graph_lib :: "nat \<Rightarrow> node trt_llm" where
  "graph_lib columns =
     \<lparr>Embedding = EmbeddingNode,
      Norm = NormNode,
      Attention = (\<lambda>cfg x pos uc kv ap.
        (AttentionNode cfg x pos uc (l_past_key_value kv),
         PresentNode cfg x pos uc (l_past_key_value kv))),
      MLP = MLPNode,
      ColumnLinear = ColumnLinearNode,
      Tensor_add = Add,
      Tensor_mul = Mul,
      Tensor_split = (\<lambda>x sz axis. map (SplitPiece x sz axis) [0 ..< columns]),
      Tensor_view = View,
      gather_last_token_logits = GatherLastToken,
      fill_none_tensor_list = fill_none\<rparr>"

subsection \<open>Shapes\<close>

text \<open>
  Modelled from the spec: the tensor operations of \<open>tensorrt_llm.functional\<close> and the
  modules of \<open>tensorrt_llm.layers\<close> are not among the source files. This instance is
  their reading on shapes. A tensor is its shape, a list of dimensions; \<open>None\<close> is the
  specification's \<open>ShapeError\<close> (tensor rank or dimension mismatch), or a shape for
  which the specification has no rule, and it propagates.
\<close>

type_synonym tshape = "nat list option"

text \<open>
  Modelled from the spec: \<open>Tensor.split\<close> is missing. \<open>split(size, dim)\<close> cuts
  dimension \<open>dim\<close> into pieces of \<open>size\<close>, the last one possibly smaller; the
  specification's "split position\_ids into two columns" is the case of a dimension of 2
  cut into pieces of 1.
\<close>

definition chunks :: "nat \<Rightarrow> nat \<Rightarrow> nat list" where
  "chunks d sz =
     (if sz = 0 then []
      else replicate (d div sz) sz @ (if d mod sz = 0 then [] else [d mod sz]))"

definition shape_split :: "tshape \<Rightarrow> nat \<Rightarrow> nat \<Rightarrow> tshape list" where
  "shape_split x sz axis =
     (case x of
        None \<Rightarrow> []
      | Some s \<Rightarrow>
          (if axis < length s then map (\<lambda>c. Some (s[axis := c])) (chunks (s ! axis) sz)
           else []))"

text \<open>
  Modelled from the spec: \<open>Embedding\<close> is missing. A lookup ("row = input id") yields
  one row of the embedding dimension per id: the embedding dimension is appended to the
  shape of the ids.
\<close>

definition shape_embedding :: "embedding_args \<Rightarrow> tshape \<Rightarrow> tshape" where
  "shape_embedding ea ids = map_option (\<lambda>s. s @ [e_embedding_dim ea]) ids"

text \<open>
  Modelled from the spec: \<open>Attention\<close> is missing. It keeps the shape of the hidden
  states; the present key/value tensor holds the two buffers (keys and values) of
  \<open>[cache_capacity, num_kv_heads, head_dim]\<close> of a cache entry.
\<close>

definition shape_attention ::
  "attention_args \<Rightarrow> tshape \<Rightarrow> tshape option \<Rightarrow> bool \<Rightarrow> tshape LayerKeyValueCacheParams
     \<Rightarrow> tshape AttentionParams \<Rightarrow> tshape \<times> tshape" where
  "shape_attention cfg x pos uc kv ap =
     (x, Some [2, a_max_position_embeddings cfg, a_num_kv_heads cfg,
               a_hidden_size cfg div a_num_attention_heads cfg])"

text \<open>
  Modelled from the spec: \<open>ColumnLinear\<close> is missing. The linear projection maps the
  last dimension from \<open>in_features\<close> to \<open>out_features\<close>.
\<close>

definition shape_column_linear :: "column_linear_args \<Rightarrow> tshape \<Rightarrow> tshape" where
  "shape_column_linear cfg x =
     (case x of
        None \<Rightarrow> None
      | Some s \<Rightarrow>
          (if s \<noteq> [] \<and> last s = in_features cfg
           then Some (butlast s @ [out_features cfg]) else None))"

text \<open>
  Modelled from the spec: the sum of two tensors is missing. A dimension mismatch is a
  \<open>ShapeError\<close>: the operands have one shape, which is the shape of the sum.
\<close>

definition shape_add :: "tshape \<Rightarrow> tshape \<Rightarrow> tshape" where
  "shape_add x y = (if x = y then x else None)"

text \<open>
  Modelled from the spec: \<open>shape\<close> and \<open>Tensor.view\<close> are missing. \<open>shape(t, i)\<close> is
  dimension \<open>i\<close> of \<open>t\<close>, and \<open>view\<close> gives the requested shape to a tensor with as
  many elements.
\<close>

fun shape_dim :: "tshape dim_expr \<Rightarrow> nat option" where
  "shape_dim (Literal n) = Some n"
| "shape_dim (Shape x i) =
     (case x of None \<Rightarrow> None | Some s \<Rightarrow> (if i < length s then Some (s ! i) else None))"

fun all_some :: "'a option list \<Rightarrow> 'a list option" where
  "all_some [] = Some []"
| "all_some (x # xs) =
     (case x of
        None \<Rightarrow> None
      | Some y \<Rightarrow> (case all_some xs of None \<Rightarrow> None | Some ys \<Rightarrow> Some (y # ys)))"

definition shape_view :: "tshape \<Rightarrow> tshape dim_expr list \<Rightarrow> tshape" where
  "shape_view x new_shape =
     (case x of
        None \<Rightarrow> None
      | Some s \<Rightarrow>
          (case all_some (map shape_dim new_shape) of
             None \<Rightarrow> None
           | Some new \<Rightarrow> (if prod_list s = prod_list new then Some new else None)))"

text \<open>
  Modelled from the spec: \<open>gather_last_token_logits\<close> is missing. It gathers, for each
  sequence in the batch (each entry of \<open>last_token_ids\<close>), the hidden state at one
  position: one row of the hidden size per sequence, whatever the padding scheme. The
  specification's head always takes \<open>last_token_ids\<close>; for Python's \<open>None\<close> it gives
  no rule, and no shape is given here.
\<close>

definition shape_gather :: "tshape \<Rightarrow> tshape option \<Rightarrow> bool \<Rightarrow> tshape" where
  "shape_gather h last_token_ids rp =
     (case (h, last_token_ids) of
        (Some hs, Some (Some [batch])) \<Rightarrow> (if hs \<noteq> [] then Some [batch, last hs] else None)
      | _ \<Rightarrow> None)"

text \<open>
  Modelled from the spec: the library on shapes. Normalisation (\<open>LayerNorm\<close>,
  \<open>RmsNorm\<close>), the feed-forward block \<open>MLP\<close> and the product with a scalar, all
  missing, keep the shape of their operand.
\<close>

definition shape_lib :: "tshape trt_llm" where
  "shape_lib =
     \<lparr>Embedding = shape_embedding,
      Norm = (\<lambda>k na x. x),
      Attention = shape_attention,
      MLP = (\<lambda>cfg x. x),
      ColumnLinear = shape_column_linear,
      Tensor_add = shape_add,
      Tensor_mul = (\<lambda>x r. x),
      Tensor_split = shape_split,
      Tensor_view = shape_view,
      gather_last_token_logits = shape_gather,
      fill_none_tensor_list = fill_none\<rparr>"

section \<open>Example inputs\<close>

text \<open>
  A small configuration of the second model family, varied by record update where a
  statement is run on a concrete input.
\<close>

definition example_args :: args where
  "example_args =
     \<lparr>model_name = ''chatglm2_6b'',
      use_cache = True,
      num_layers = 2,
      hidden_size = 4096,
      num_heads = 32,
      num_kv_heads = 2,
      max_seq_length = 2048,
      ffn_hidden_size = 13696,
      vocab_size = 65024,
      hidden_act = ''swiglu'',
      norm_epsilon = 1 / 100000,
      apply_query_key_layer_scaling = False,
      qkv_bias = True,
      linear_bias = False,
      dtype = ''float16'',
      logits_dtype = ''float32'',
      quant_mode_has_int8_kv_cache = False,
      quant_mode_has_fp8_kv_cache = False,
      mapping_tp_size = 3,
      mapping_rank = 0,
      max_output_len = 1024,
      max_input_len = 1024,
      tokens_per_block = 64,
      apply_residual_connection_post_layernorm = Some False,
      rmsnorm = Some True,
      rotary_embedding_scaling = Some 1\<rparr>"

definition legacy_args :: args where
  "legacy_args = example_args\<lparr>model_name := ''chatglm_6b''\<rparr>"

text \<open>The first decoder layer built for a configuration, on the graph instance.\<close>

definition example_layer :: "args \<Rightarrow> node ChatGLMDecoderLayer" where
  "example_layer a = projr (ChatGLMDecoderLayer_init (graph_lib 2) 0 a)"

definition glm_10b_args :: args where
  "glm_10b_args = example_args\<lparr>model_name := ''glm_10b''\<rparr>"

definition small_glm_10b_args :: args where
  "small_glm_10b_args = glm_10b_args\<lparr>hidden_size := 1024\<rparr>"

definition no_cache_args :: args where
  "no_cache_args = example_args\<lparr>use_cache := False\<rparr>"

text \<open>The models built for a configuration, on the graph instance and on shapes.\<close>

definition example_model :: "args \<Rightarrow> node ChatGLMModel" where
  "example_model a = projr (ChatGLMModel_init (graph_lib 2) a)"

definition shape_stack :: "args \<Rightarrow> tshape ChatGLMModel" where
  "shape_stack a = projr (ChatGLMModel_init shape_lib a)"

definition graph_head_model :: "args \<Rightarrow> node ChatGLMHeadModel" where
  "graph_head_model a = projr (ChatGLMHeadModel_init (graph_lib 2) a)"

definition shape_model :: "args \<Rightarrow> tshape ChatGLMHeadModel" where
  "shape_model a = projr (ChatGLMHeadModel_init shape_lib a)"

definition no_cache_params :: "'t KeyValueCacheParams" where
  "no_cache_params =
     \<lparr>past_key_value = None, host_past_key_value_lengths = None,
      host_max_kv_cache_lengths = None, kv_cache_block_pointers = None,
      cache_indirection = None\<rparr>"

definition layer_cache_params :: "'t LayerKeyValueCacheParams" where
  "layer_cache_params =
     \<lparr>l_past_key_value = [None], l_kv_cache_block_pointers = [None],
      l_host_past_key_value_lengths = None, l_host_max_kv_cache_lengths = None,
      l_cache_indirection = None\<rparr>"

definition no_attention_params :: "'t AttentionParams" where
  "no_attention_params =
     \<lparr>sequence_length = None, context_lengths = None, host_context_lengths = None,
      max_context_length = None, host_request_types = None\<rparr>"

definition example_cli :: cli where
  "example_cli =
     \<lparr>cli_max_output_len = 16, cli_max_kv_cache_len = None, cli_log_level = ''error'',
      cli_engine_dir = ''bloom_outputs'', cli_tokenizer_dir = ''.'',
      cli_input_text = ''Born in north-east France, Soyer trained as a''\<rparr>"

definition example_descriptor :: engine_descriptor where
  "example_descriptor =
     \<lparr>gpt_attention_plugin = Some ''float16'',
      builder = \<lparr>precision = ''float16'', tensor_parallel = 2, b_num_heads = 32,
                 b_hidden_size = 4096, b_vocab_size = 250880, b_num_layers = 30\<rparr>\<rparr>"

definition contiguous_net :: plugin_config where
  "contiguous_net = \<lparr>remove_input_padding = False, paged_kv_cache = False\<rparr>"

text \<open>The result of the head model's \<open>forward\<close> on the graph instance.\<close>

definition example_head_forward ::
  "plugin_config \<Rightarrow> node head_output \<times> node marked_output list" where
  "example_head_forward net =
     projr (ChatGLMHeadModel_forward (graph_lib 2) net (graph_head_model example_args)
              (Input ''input_ids'') None (Some (Input ''last_token_ids''))
              no_cache_params no_attention_params)"

text \<open>The hidden states the decoder stack of that model returns.\<close>

definition example_hidden_states :: node where
  "example_hidden_states =
     fst (projr (ChatGLMModel_forward (graph_lib 2) (graph_head_model example_args)
                   (Input ''input_ids'') None no_cache_params no_attention_params))"

definition single_process :: runtime where
  "single_process = \<lparr>mpi_world_size = 1, mpi_rank = 0, gpus_per_node = 8\<rparr>"

definition two_processes :: runtime where
  "two_processes = \<lparr>mpi_world_size = 2, mpi_rank = 1, gpus_per_node = 8\<rparr>"

section \<open>Construction of the layer variants\<close>

lemma select_variant_unknown:
  "model_name a \<notin> set supported_models \<Longrightarrow> select_variant a = Inr no_variant"
  by (simp add: select_variant_def supported_models_def)

lemma layer_init_unknown:
  "model_name a \<notin> set supported_models \<Longrightarrow>
     ChatGLMDecoderLayer_init lib i a = Inl (AttributeError ''norm'')"
  by (simp add: ChatGLMDecoderLayer_init_def select_variant_unknown no_variant_def)

lemma model_init_unknown:
  assumes "model_name a \<notin> set supported_models"
  shows "ChatGLMModel_init lib a = Inl (AttributeError ''norm'')"
proof (cases "num_layers a")
  case 0
  with assms show ?thesis
    by (simp add: ChatGLMModel_init_def supported_models_def)
next
  case (Suc n)
  then have "[0 ..< num_layers a] = 0 # [1 ..< num_layers a]"
    by (simp add: upt_conv_Cons)
  moreover have "ChatGLMDecoderLayer_init lib 0 a = Inl (AttributeError ''norm'')"
    using assms by (rule layer_init_unknown)
  ultimately show ?thesis
    by (simp add: ChatGLMModel_init_def Let_def)
qed

text \<open>
  C1, as the code has it. For a model identifier outside the seven supported ones the
  construction of a decoder layer fails, and so does the construction of the whole
  model: no layer and no model object is returned. The exception is the
  \<open>AttributeError\<close> of reading \<open>self.norm\<close>, which no branch assigned; the file has no
  check of the identifier and no \<open>ConfigurationError\<close>.
\<close>

theorem unknown_model_attribute_error:
  assumes "model_name a \<notin> set supported_models"
  shows "ChatGLMDecoderLayer_init lib layer_id a = Inl (AttributeError ''norm'')
       \<and> ChatGLMModel_init lib a = Inl (AttributeError ''norm'')"
  using assms by (simp add: layer_init_unknown model_init_unknown)

theorem unknown_model_attribute_error_witness:
  "model_name (example_args\<lparr>model_name := ''chatglm4_9b''\<rparr>) \<notin> set supported_models
   \<and> ChatGLMDecoderLayer_init (graph_lib 2) 0 (example_args\<lparr>model_name := ''chatglm4_9b''\<rparr>)
       = Inl (AttributeError ''norm'')
   \<and> ChatGLMModel_init (graph_lib 2) (example_args\<lparr>model_name := ''chatglm4_9b''\<rparr>)
       = Inl (AttributeError ''norm'')"
proof -
  have h: "model_name (example_args\<lparr>model_name := ''chatglm4_9b''\<rparr>) \<notin> set supported_models"
    by (simp add: supported_models_def)
  from unknown_model_attribute_error [OF h, of "graph_lib 2" 0] h show ?thesis
    by simp
qed

text \<open>
  The sentence of the specification, that the failure is a \<open>ConfigurationError\<close>, does
  not hold of the code: here is an unsupported identifier for which the construction
  ends in another exception.
\<close>

theorem unknown_model_not_configuration_error:
  "''chatglm4_9b'' \<notin> set supported_models
   \<and> ChatGLMDecoderLayer_init (graph_lib 2) 0 (example_args\<lparr>model_name := ''chatglm4_9b''\<rparr>)
       \<noteq> Inl ConfigurationError"
  by (simp add: supported_models_def ChatGLMDecoderLayer_init_def select_variant_def
      no_variant_def example_args_def)

section \<open>The decoder layer\<close>

lemma layer_init_attributes:
  assumes "ChatGLMDecoderLayer_init lib layer_id a = Inr l"
  shows "\<exists>v. select_variant a = Inr v
           \<and> dl_model_name l = model_name a
           \<and> dl_use_cache l = use_cache a
           \<and> dl_alpha l = v_alpha v
           \<and> dl_norm l = v_norm v
           \<and> dl_norm l \<noteq> None
           \<and> dl_apply_residual_connection_post_layernorm l =
               v_apply_residual_connection_post_layernorm v"
  using assms
  by (auto simp: ChatGLMDecoderLayer_init_def split: sum.splits option.splits)

lemma select_variant_legacy:
  "model_name a = ''chatglm_6b'' \<Longrightarrow>
     select_variant a =
       Inr (no_variant\<lparr>
          v_alpha := Some (Pow_half (2 * num_layers a)),
          v_norm := Some LayerNorm,
          v_attention_mask_type := Some bidirectional,
          v_position_embedding_type := Some chatglm\<rparr>)"
  by (simp add: select_variant_def)

lemma select_variant_additive:
  assumes "model_name a \<in> set [''chatglm2_6b'', ''chatglm2_6b_32k'', ''chatglm3_6b'',
             ''chatglm3_6b_base'', ''chatglm3_6b_32k'', ''glm_10b'']"
      and "select_variant a = Inr v"
  shows "v_alpha v = None
       \<and> v_apply_residual_connection_post_layernorm v = apply_residual_connection_post_layernorm a
       \<and> apply_residual_connection_post_layernorm a \<noteq> None
       \<and> (v_norm v = Some LayerNorm \<or> v_norm v = Some RmsNorm)"
  using assms
  by (auto simp: select_variant_def no_variant_def Let_def split: option.splits if_splits)

text \<open>
  C6. For every supported model identifier, a decoder layer that has been constructed
  has exactly one residual-combine policy: either \<open>alpha\<close> is set and \<open>forward\<close> takes
  its first branch (the scaled policy of \<open>chatglm_6b\<close>), or
  \<open>apply_residual_connection_post_layernorm\<close> is set and \<open>forward\<close> takes its second
  branch (the additive policy with a selectable base); never both and never neither. Its
  normalisation kind is one of \<open>LayerNorm\<close> and \<open>RmsNorm\<close>.
\<close>

theorem supported_variant_exactly_one:
  assumes "model_name a \<in> set supported_models"
      and "ChatGLMDecoderLayer_init lib layer_id a = Inr l"
  shows "(dl_alpha l = None) \<noteq> (dl_apply_residual_connection_post_layernorm l = None)
       \<and> (dl_alpha l \<noteq> None) = (dl_model_name l \<in> set [''chatglm_6b''])
       \<and> (dl_apply_residual_connection_post_layernorm l \<noteq> None) =
           (dl_model_name l \<notin> set [''chatglm_6b'']
            \<and> dl_model_name l \<in> set [''chatglm2_6b'', ''chatglm2_6b_32k'', ''chatglm3_6b'',
                 ''chatglm3_6b_base'', ''chatglm3_6b_32k'', ''glm_10b''])
       \<and> (dl_norm l = Some LayerNorm \<or> dl_norm l = Some RmsNorm)"
proof -
  from assms(2) obtain v where v: "select_variant a = Inr v"
    and attrs: "dl_model_name l = model_name a" "dl_alpha l = v_alpha v" "dl_norm l = v_norm v"
      "dl_apply_residual_connection_post_layernorm l =
         v_apply_residual_connection_post_layernorm v"
    using layer_init_attributes by blast
  show ?thesis
  proof (cases "model_name a = ''chatglm_6b''")
    case True
    with v have "v = no_variant\<lparr>
          v_alpha := Some (Pow_half (2 * num_layers a)),
          v_norm := Some LayerNorm,
          v_attention_mask_type := Some bidirectional,
          v_position_embedding_type := Some chatglm\<rparr>"
      by (simp add: select_variant_legacy)
    with True attrs show ?thesis by (simp add: no_variant_def)
  next
    case False
    with assms(1) have m: "model_name a \<in> set [''chatglm2_6b'', ''chatglm2_6b_32k'',
        ''chatglm3_6b'', ''chatglm3_6b_base'', ''chatglm3_6b_32k'', ''glm_10b'']"
      by (simp add: supported_models_def)
    from select_variant_additive [OF m v] False m attrs show ?thesis by auto
  qed
qed

lemma example_layer_fields:
  assumes "ChatGLMDecoderLayer_init (graph_lib 2) 0 example_args = Inr l"
  shows "dl_pre_norm l = NormNode RmsNorm (layer_norm_args example_args)"
    and "dl_post_norm l = NormNode RmsNorm (layer_norm_args example_args)"
    and "dl_mlp l = MLPNode (layer_mlp_args 0 example_args)"
    and "dl_attention l =
           (\<lambda>x pos uc kv ap.
              (AttentionNode (layer_attention_args 0 example_args causal rope_gptj None)
                 x pos uc (l_past_key_value kv),
               PresentNode (layer_attention_args 0 example_args causal rope_gptj None)
                 x pos uc (l_past_key_value kv)))"
    and "dl_alpha l = None"
    and "dl_apply_residual_connection_post_layernorm l = Some False"
    and "dl_norm l = Some RmsNorm"
  using assms
  by (auto simp: ChatGLMDecoderLayer_init_def select_variant_def no_variant_def graph_lib_def
      example_args_def)

theorem supported_variant_exactly_one_witness:
  "model_name example_args \<in> set supported_models
   \<and> ChatGLMDecoderLayer_init (graph_lib 2) 0 example_args = Inr (example_layer example_args)
   \<and> (dl_alpha (example_layer example_args) = None)
       \<noteq> (dl_apply_residual_connection_post_layernorm (example_layer example_args) = None)
   \<and> dl_alpha (example_layer example_args) = None
   \<and> dl_apply_residual_connection_post_layernorm (example_layer example_args) = Some False
   \<and> dl_model_name (example_layer example_args) \<notin> set [''chatglm_6b'']
   \<and> dl_norm (example_layer example_args) = Some RmsNorm"
proof -
  have h: "model_name example_args \<in> set supported_models"
    by (simp add: supported_models_def example_args_def)
  have "\<exists>l. ChatGLMDecoderLayer_init (graph_lib 2) 0 example_args = Inr l"
    by (simp add: ChatGLMDecoderLayer_init_def select_variant_def no_variant_def
        example_args_def)
  then obtain l where l: "ChatGLMDecoderLayer_init (graph_lib 2) 0 example_args = Inr l"
    by blast
  then have L: "example_layer example_args = l"
    by (simp add: example_layer_def)
  from supported_variant_exactly_one [OF h l]
  have "(dl_alpha l = None) \<noteq> (dl_apply_residual_connection_post_layernorm l = None)"
    and "(dl_alpha l \<noteq> None) = (dl_model_name l \<in> set [''chatglm_6b''])"
    by blast+
  with example_layer_fields(5-7) [OF l] h l L show ?thesis by simp
qed

lemma layer_init_legacy:
  assumes "model_name a = ''chatglm_6b''"
  shows "\<exists>l. ChatGLMDecoderLayer_init lib layer_id a = Inr l"
  using assms
  by (simp add: ChatGLMDecoderLayer_init_def select_variant_legacy no_variant_def)

text \<open>
  C3. For \<open>chatglm_6b\<close> a layer is always constructed, its scale is
  \<open>alpha = (2 * num_layers) ** 0.5\<close>, and \<open>forward\<close> uses it in both residual combines:
  the input of the post-norm is \<open>norm_output * alpha + attention_output\<close> and the output
  is \<open>norm_output2 * alpha + mlp_output\<close>, where \<open>norm_output\<close> is the pre-norm of the
  hidden states and \<open>norm_output2\<close> the post-norm of that input.
\<close>

theorem legacy_layer_forward:
  assumes "model_name a = ''chatglm_6b''"
  shows "\<exists>l. ChatGLMDecoderLayer_init lib layer_id a = Inr l
            \<and> dl_alpha l = Some (Pow_half (2 * num_layers a))
            \<and> (\<forall>hidden_states position_ids kv ap.
                 let alpha = Pow_half (2 * num_layers a);
                     norm_output = dl_pre_norm l hidden_states;
                     att = dl_attention l norm_output position_ids (use_cache a) kv ap;
                     norm_input = Tensor_add lib (Tensor_mul lib norm_output alpha) (fst att);
                     norm_output2 = dl_post_norm l norm_input;
                     mlp_output = dl_mlp l norm_output2
                 in ChatGLMDecoderLayer_forward lib l hidden_states position_ids kv ap =
                      Inr (Tensor_add lib (Tensor_mul lib norm_output2 alpha) mlp_output,
                           if use_cache a then Some (snd att) else None))"
proof -
  from layer_init_legacy [OF assms] obtain l
    where l: "ChatGLMDecoderLayer_init lib layer_id a = Inr l" by blast
  from layer_init_attributes [OF l] assms
  have attrs: "dl_model_name l = ''chatglm_6b''" "dl_use_cache l = use_cache a"
    "dl_alpha l = Some (Pow_half (2 * num_layers a))"
    by (auto simp: select_variant_legacy no_variant_def)
  have "ChatGLMDecoderLayer_forward lib l hidden_states position_ids kv ap =
      (let alpha = Pow_half (2 * num_layers a);
           norm_output = dl_pre_norm l hidden_states;
           att = dl_attention l norm_output position_ids (use_cache a) kv ap;
           norm_input = Tensor_add lib (Tensor_mul lib norm_output alpha) (fst att);
           norm_output2 = dl_post_norm l norm_input;
           mlp_output = dl_mlp l norm_output2
       in Inr (Tensor_add lib (Tensor_mul lib norm_output2 alpha) mlp_output,
               if use_cache a then Some (snd att) else None))"
    for hidden_states position_ids kv ap
    by (simp add: ChatGLMDecoderLayer_forward_def attrs Let_def)
  with l attrs(3) show ?thesis by (auto simp: Let_def)
qed

lemma legacy_layer_fields:
  assumes "ChatGLMDecoderLayer_init (graph_lib 2) 0 legacy_args = Inr l"
  shows "dl_pre_norm l = NormNode LayerNorm (layer_norm_args legacy_args)"
    and "dl_post_norm l = NormNode LayerNorm (layer_norm_args legacy_args)"
    and "dl_mlp l = MLPNode (layer_mlp_args 0 legacy_args)"
    and "dl_attention l =
           (\<lambda>x pos uc kv ap.
              (AttentionNode (layer_attention_args 0 legacy_args bidirectional chatglm None)
                 x pos uc (l_past_key_value kv),
               PresentNode (layer_attention_args 0 legacy_args bidirectional chatglm None)
                 x pos uc (l_past_key_value kv)))"
  using assms
  by (auto simp: ChatGLMDecoderLayer_init_def select_variant_def no_variant_def graph_lib_def
      legacy_args_def example_args_def)

theorem legacy_layer_forward_witness:
  "model_name legacy_args = ''chatglm_6b''
   \<and> dl_alpha (example_layer legacy_args) = Some (Pow_half 4)
   \<and> (let norm_output = NormNode LayerNorm (layer_norm_args legacy_args) (Input ''hidden_states'');
           cfg = layer_attention_args 0 legacy_args bidirectional chatglm None;
           attention_output =
             AttentionNode cfg norm_output (Some (Input ''position_ids'')) True [None];
           norm_input = Add (Mul norm_output (Pow_half 4)) attention_output;
           norm_output2 = NormNode LayerNorm (layer_norm_args legacy_args) norm_input;
           mlp_output = MLPNode (layer_mlp_args 0 legacy_args) norm_output2
       in ChatGLMDecoderLayer_forward (graph_lib 2) (example_layer legacy_args)
            (Input ''hidden_states'') (Some (Input ''position_ids''))
            layer_cache_params no_attention_params =
          Inr (Add (Mul norm_output2 (Pow_half 4)) mlp_output,
               Some (PresentNode cfg norm_output (Some (Input ''position_ids'')) True [None])))"
proof -
  have h: "model_name legacy_args = ''chatglm_6b''"
    by (simp add: legacy_args_def)
  from legacy_layer_forward [OF h, of "graph_lib 2" 0] obtain l
    where l: "ChatGLMDecoderLayer_init (graph_lib 2) 0 legacy_args = Inr l"
      and alpha: "dl_alpha l = Some (Pow_half (2 * num_layers legacy_args))"
      and fw: "\<And>hidden_states position_ids kv ap.
                 let alpha = Pow_half (2 * num_layers legacy_args);
                     norm_output = dl_pre_norm l hidden_states;
                     att = dl_attention l norm_output position_ids (use_cache legacy_args) kv ap;
                     norm_input =
                       Tensor_add (graph_lib 2) (Tensor_mul (graph_lib 2) norm_output alpha)
                         (fst att);
                     norm_output2 = dl_post_norm l norm_input;
                     mlp_output = dl_mlp l norm_output2
                 in ChatGLMDecoderLayer_forward (graph_lib 2) l hidden_states position_ids kv ap =
                      Inr (Tensor_add (graph_lib 2) (Tensor_mul (graph_lib 2) norm_output2 alpha)
                             mlp_output,
                           if use_cache legacy_args then Some (snd att) else None)"
    by blast
  from l have L: "example_layer legacy_args = l"
    by (simp add: example_layer_def)
  have n: "num_layers legacy_args = 2" "use_cache legacy_args"
    by (simp_all add: legacy_args_def example_args_def)
  have ops: "Tensor_add (graph_lib 2) = Add" "Tensor_mul (graph_lib 2) = Mul"
    by (simp_all add: graph_lib_def)
  from fw [of "Input ''hidden_states''" "Some (Input ''position_ids'')" layer_cache_params
            no_attention_params]
  show ?thesis
    by (simp add: h alpha L n ops legacy_layer_fields [OF l] Let_def layer_cache_params_def)
qed

text \<open>
  C4. For the six other supported identifiers, \<open>forward\<close> of a constructed layer adds
  the attention output to \<open>norm_output\<close> when the post-layernorm residual policy is set
  and to \<open>hidden_states\<close> otherwise, giving \<open>residual_input\<close>; and it adds the
  feed-forward output to \<open>norm_output2\<close> under the policy and to \<open>residual_input\<close>
  otherwise.
\<close>

theorem additive_layer_forward:
  assumes "model_name a \<in> set [''chatglm2_6b'', ''chatglm2_6b_32k'', ''chatglm3_6b'',
             ''chatglm3_6b_base'', ''chatglm3_6b_32k'', ''glm_10b'']"
      and "ChatGLMDecoderLayer_init lib layer_id a = Inr l"
  shows "\<exists>post. apply_residual_connection_post_layernorm a = Some post
            \<and> (\<forall>hidden_states position_ids kv ap.
                 let norm_output = dl_pre_norm l hidden_states;
                     att = dl_attention l norm_output position_ids (use_cache a) kv ap;
                     residual_input =
                       Tensor_add lib (if post then norm_output else hidden_states) (fst att);
                     norm_output2 = dl_post_norm l residual_input;
                     mlp_output = dl_mlp l norm_output2
                 in ChatGLMDecoderLayer_forward lib l hidden_states position_ids kv ap =
                      Inr (Tensor_add lib (if post then norm_output2 else residual_input)
                             mlp_output,
                           if use_cache a then Some (snd att) else None))"
proof -
  from layer_init_attributes [OF assms(2)] obtain v where v: "select_variant a = Inr v"
    and attrs: "dl_model_name l = model_name a" "dl_use_cache l = use_cache a"
      "dl_apply_residual_connection_post_layernorm l =
         v_apply_residual_connection_post_layernorm v"
    by blast
  from select_variant_additive [OF assms(1) v] obtain post
    where post: "apply_residual_connection_post_layernorm a = Some post"
      "v_apply_residual_connection_post_layernorm v = Some post"
    by auto
  from assms(1) have name: "model_name a \<noteq> ''chatglm_6b''" by auto
  have "ChatGLMDecoderLayer_forward lib l hidden_states position_ids kv ap =
      (let norm_output = dl_pre_norm l hidden_states;
           att = dl_attention l norm_output position_ids (use_cache a) kv ap;
           residual_input =
             Tensor_add lib (if post then norm_output else hidden_states) (fst att);
           norm_output2 = dl_post_norm l residual_input;
           mlp_output = dl_mlp l norm_output2
       in Inr (Tensor_add lib (if post then norm_output2 else residual_input) mlp_output,
               if use_cache a then Some (snd att) else None))"
    for hidden_states position_ids kv ap
    using assms(1) name
    by (simp add: ChatGLMDecoderLayer_forward_def attrs post Let_def)
  with post(1) show ?thesis by (auto simp: Let_def)
qed

theorem additive_layer_forward_witness:
  "model_name example_args \<in> set [''chatglm2_6b'', ''chatglm2_6b_32k'', ''chatglm3_6b'',
       ''chatglm3_6b_base'', ''chatglm3_6b_32k'', ''glm_10b'']
   \<and> ChatGLMDecoderLayer_init (graph_lib 2) 0 example_args = Inr (example_layer example_args)
   \<and> apply_residual_connection_post_layernorm example_args = Some False
   \<and> (let norm_output = NormNode RmsNorm (layer_norm_args example_args) (Input ''hidden_states'');
           cfg = layer_attention_args 0 example_args causal rope_gptj None;
           attention_output = AttentionNode cfg norm_output None True [None];
           residual_input = Add (Input ''hidden_states'') attention_output;
           norm_output2 = NormNode RmsNorm (layer_norm_args example_args) residual_input;
           mlp_output = MLPNode (layer_mlp_args 0 example_args) norm_output2
       in ChatGLMDecoderLayer_forward (graph_lib 2) (example_layer example_args)
            (Input ''hidden_states'') None layer_cache_params no_attention_params =
          Inr (Add residual_input mlp_output,
               Some (PresentNode cfg norm_output None True [None])))"
proof -
  have h: "model_name example_args \<in> set [''chatglm2_6b'', ''chatglm2_6b_32k'', ''chatglm3_6b'',
       ''chatglm3_6b_base'', ''chatglm3_6b_32k'', ''glm_10b'']"
    by (simp add: example_args_def)
  have "\<exists>l. ChatGLMDecoderLayer_init (graph_lib 2) 0 example_args = Inr l"
    by (simp add: ChatGLMDecoderLayer_init_def select_variant_def no_variant_def
        example_args_def)
  then obtain l where l: "ChatGLMDecoderLayer_init (graph_lib 2) 0 example_args = Inr l"
    by blast
  then have L: "example_layer example_args = l"
    by (simp add: example_layer_def)
  have post: "apply_residual_connection_post_layernorm example_args = Some False"
    and uc: "use_cache example_args"
    by (simp_all add: example_args_def)
  have ops: "Tensor_add (graph_lib 2) = Add"
    by (simp add: graph_lib_def)
  from additive_layer_forward [OF h l] post
  have "let norm_output = dl_pre_norm l (Input ''hidden_states'');
            att = dl_attention l norm_output None (use_cache example_args) layer_cache_params
                    no_attention_params;
            residual_input = Tensor_add (graph_lib 2) (Input ''hidden_states'') (fst att);
            norm_output2 = dl_post_norm l residual_input;
            mlp_output = dl_mlp l norm_output2
        in ChatGLMDecoderLayer_forward (graph_lib 2) l (Input ''hidden_states'') None
             layer_cache_params no_attention_params =
           Inr (Tensor_add (graph_lib 2) residual_input mlp_output,
                if use_cache example_args then Some (snd att) else None)"
    by (auto simp: Let_def)
  with h show ?thesis
    by (simp add: l L post uc ops example_layer_fields [OF l] Let_def layer_cache_params_def)
qed

section \<open>The input embedding\<close>

lemma model_init_attributes:
  assumes "ChatGLMModel_init lib a = Inr m"
  shows "gm_model_name m = model_name a"
    and "gm_use_cache m = use_cache a"
    and "gm_embedding m = Embedding lib (token_embedding_args a)"
    and "gm_position_embeddings m =
           (if model_name a \<in> set [''glm_10b'']
            then Some (Embedding lib (position_embedding_args a)) else None)"
    and "gm_block_embeddings m =
           (if model_name a \<in> set [''glm_10b'']
            then Some (Embedding lib (position_embedding_args a)) else None)"
    and "build_layers lib a [0 ..< num_layers a] = Inr (gm_layers m)"
  using assms
  by (auto simp: ChatGLMModel_init_def Let_def split: sum.splits option.splits)

lemma embed_inputs_glm_10b:
  assumes "gm_model_name m = ''glm_10b''"
      and "gm_position_embeddings m = Some pe" and "gm_block_embeddings m = Some be"
      and "Tensor_split lib position_ids 1 1 = column0 # column1 # rest"
  shows "embed_inputs lib m input_ids (Some position_ids) =
           Inr (Tensor_add lib (gm_embedding m input_ids)
                  (Tensor_view lib (Tensor_add lib (pe column0) (be column1))
                     [Shape input_ids 0, Shape input_ids 1, Literal 4096]))"
  using assms by (simp add: embed_inputs_def list_index_def Let_def)

lemma embed_inputs_other:
  assumes "gm_model_name m \<noteq> ''glm_10b''"
  shows "embed_inputs lib m input_ids position_ids = Inr (gm_embedding m input_ids)"
  using assms by (simp add: embed_inputs_def)

text \<open>
  C5, as the code has it. Of the two variants whose input contract has two-dimensional
  position ids, only \<open>glm_10b\<close> has the two embedding tables, and only for it does
  \<open>forward\<close> split \<open>position_ids\<close> along dimension 1, embed the first piece through
  \<open>position_embeddings\<close> and the second through \<open>block_embeddings\<close>, sum the two, view
  the sum with last dimension 4096 and add it to the token embedding; fewer than two
  pieces is an \<open>IndexError\<close>, and further pieces are ignored. For every other model,
  \<open>chatglm_6b\<close> included, the hidden states handed to the first layer are the token
  embedding alone.
\<close>

theorem position_embedding_glm_10b_only:
  assumes "ChatGLMModel_init lib a = Inr m"
  shows "\<exists>pe be.
           gm_position_embeddings m = (if model_name a = ''glm_10b'' then Some pe else None)
         \<and> gm_block_embeddings m = (if model_name a = ''glm_10b'' then Some be else None)
         \<and> (\<forall>input_ids position_ids.
               embed_inputs lib m input_ids (Some position_ids) =
                 (if model_name a = ''glm_10b'' then
                    (case Tensor_split lib position_ids 1 1 of
                       column0 # column1 # rest \<Rightarrow>
                         Inr (Tensor_add lib (gm_embedding m input_ids)
                                (Tensor_view lib (Tensor_add lib (pe column0) (be column1))
                                   [Shape input_ids 0, Shape input_ids 1, Literal 4096]))
                     | _ \<Rightarrow> Inl IndexError)
                  else Inr (gm_embedding m input_ids)))"
proof (cases "model_name a = ''glm_10b''")
  case True
  with model_init_attributes [OF assms]
  have n: "gm_model_name m = ''glm_10b''"
    and pe: "gm_position_embeddings m = Some (Embedding lib (position_embedding_args a))"
    and be: "gm_block_embeddings m = Some (Embedding lib (position_embedding_args a))"
    by simp_all
  have "embed_inputs lib m input_ids (Some position_ids) =
          (case Tensor_split lib position_ids 1 1 of
             column0 # column1 # rest \<Rightarrow>
               Inr (Tensor_add lib (gm_embedding m input_ids)
                      (Tensor_view lib
                         (Tensor_add lib (Embedding lib (position_embedding_args a) column0)
                            (Embedding lib (position_embedding_args a) column1))
                         [Shape input_ids 0, Shape input_ids 1, Literal 4096]))
           | _ \<Rightarrow> Inl IndexError)"
    for input_ids position_ids
    by (simp add: embed_inputs_def list_index_def Let_def n pe be split: list.splits)
  with True pe be show ?thesis by auto
next
  case False
  with model_init_attributes [OF assms]
  have n: "gm_model_name m \<noteq> ''glm_10b''"
    and pe: "gm_position_embeddings m = None"
    and be: "gm_block_embeddings m = None"
    by simp_all
  from embed_inputs_other [OF n] False pe be show ?thesis by auto
qed

lemma example_model_init:
  "ChatGLMModel_init (graph_lib 2) legacy_args = Inr (example_model legacy_args)"
  "ChatGLMModel_init (graph_lib 2) glm_10b_args = Inr (example_model glm_10b_args)"
  "ChatGLMModel_init (graph_lib 2) no_cache_args = Inr (example_model no_cache_args)"
  by (simp_all add: example_model_def ChatGLMModel_init_def ChatGLMDecoderLayer_init_def
      select_variant_def no_variant_def upt_conv_Cons
      legacy_args_def glm_10b_args_def no_cache_args_def example_args_def)

theorem position_embedding_glm_10b_only_witness:
  "ChatGLMModel_init (graph_lib 2) glm_10b_args = Inr (example_model glm_10b_args)
   \<and> embed_inputs (graph_lib 2) (example_model glm_10b_args) (Input ''input_ids'')
        (Some (Input ''position_ids'')) =
      Inr (Add (EmbeddingNode (token_embedding_args glm_10b_args) (Input ''input_ids''))
             (View
                (Add (EmbeddingNode (position_embedding_args glm_10b_args)
                        (SplitPiece (Input ''position_ids'') 1 1 0))
                     (EmbeddingNode (position_embedding_args glm_10b_args)
                        (SplitPiece (Input ''position_ids'') 1 1 1)))
                [Shape (Input ''input_ids'') 0, Shape (Input ''input_ids'') 1, Literal 4096]))"
proof -
  note init = example_model_init(2)
  have n: "model_name glm_10b_args = ''glm_10b''"
    by (simp add: glm_10b_args_def)
  from position_embedding_glm_10b_only [OF init] n obtain pe be
    where pe: "gm_position_embeddings (example_model glm_10b_args) = Some pe"
      and be: "gm_block_embeddings (example_model glm_10b_args) = Some be"
      and emb: "\<And>input_ids position_ids.
        embed_inputs (graph_lib 2) (example_model glm_10b_args) input_ids (Some position_ids) =
          (case Tensor_split (graph_lib 2) position_ids 1 1 of
             column0 # column1 # rest \<Rightarrow>
               Inr (Tensor_add (graph_lib 2) (gm_embedding (example_model glm_10b_args) input_ids)
                      (Tensor_view (graph_lib 2)
                         (Tensor_add (graph_lib 2) (pe column0) (be column1))
                         [Shape input_ids 0, Shape input_ids 1, Literal 4096]))
           | _ \<Rightarrow> Inl IndexError)"
    by auto
  from model_init_attributes(3-5) [OF init] n pe be
  have "gm_embedding (example_model glm_10b_args) = EmbeddingNode (token_embedding_args glm_10b_args)"
    "pe = EmbeddingNode (position_embedding_args glm_10b_args)"
    "be = EmbeddingNode (position_embedding_args glm_10b_args)"
    by (simp_all add: graph_lib_def)
  with emb [of "Input ''input_ids''" "Input ''position_ids''"] init show ?thesis
    by (simp add: graph_lib_def upt_conv_Cons)
qed

text \<open>
  The sentence of the specification fails for \<open>chatglm_6b\<close>: its input contract has
  two-dimensional position ids, but the model has no position or block embedding table
  and the first layer receives the token embedding with nothing added.
\<close>

theorem chatglm_6b_no_position_embedding:
  "position_encoding_2d (model_name legacy_args)
   \<and> ChatGLMModel_init (graph_lib 2) legacy_args = Inr (example_model legacy_args)
   \<and> gm_position_embeddings (example_model legacy_args) = None
   \<and> gm_block_embeddings (example_model legacy_args) = None
   \<and> embed_inputs (graph_lib 2) (example_model legacy_args) (Input ''input_ids'')
        (Some (Input ''position_ids'')) =
      Inr (EmbeddingNode (token_embedding_args legacy_args) (Input ''input_ids''))"
proof -
  note init = example_model_init(1)
  have n: "model_name legacy_args = ''chatglm_6b''"
    by (simp add: legacy_args_def)
  with model_init_attributes [OF init]
  have "gm_model_name (example_model legacy_args) \<noteq> ''glm_10b''"
    "gm_position_embeddings (example_model legacy_args) = None"
    "gm_block_embeddings (example_model legacy_args) = None"
    "gm_embedding (example_model legacy_args) = EmbeddingNode (token_embedding_args legacy_args)"
    by (simp_all add: graph_lib_def)
  with init n show ?thesis
    by (simp add: embed_inputs_other position_encoding_2d_def)
qed

lemma chunks_two: "chunks 2 (Suc 0) = [Suc 0, Suc 0]"
  by (simp add: chunks_def numeral_2_eq_2)

text \<open>
  C9. For \<open>glm_10b\<close>, on input ids of shape \<open>[batch, seq]\<close> and position ids of shape
  \<open>[batch, 2, seq]\<close>, the summed position and block embedding is viewed with last
  dimension 4096 whatever \<open>hidden_size\<close> is, and the sum with the token embedding is
  well shaped exactly when \<open>hidden_size = 4096\<close>; it then has shape
  \<open>[batch, seq, 4096]\<close>.
\<close>

theorem glm_10b_shapes_need_hidden_size_4096:
  assumes "ChatGLMModel_init shape_lib a = Inr m" and "model_name a = ''glm_10b''"
  shows "embed_inputs shape_lib m (Some [batch, seq]) (Some (Some [batch, 2, seq])) =
           Inr (if hidden_size a = 4096 then Some [batch, seq, 4096] else None)"
proof -
  from model_init_attributes [OF assms(1)] assms(2)
  have n: "gm_model_name m = ''glm_10b''"
    and emb: "gm_embedding m = shape_embedding (token_embedding_args a)"
    and pe: "gm_position_embeddings m = Some (shape_embedding (position_embedding_args a))"
    and be: "gm_block_embeddings m = Some (shape_embedding (position_embedding_args a))"
    by (simp_all add: shape_lib_def)
  have split: "Tensor_split shape_lib (Some [batch, 2, seq]) 1 1 =
      [Some [batch, 1, seq], Some [batch, 1, seq]]"
    by (simp add: shape_lib_def shape_split_def chunks_two)
  have "embed_inputs shape_lib m (Some [batch, seq]) (Some (Some [batch, 2, seq])) =
      Inr (shape_add (Some [batch, seq, hidden_size a])
             (shape_view (Some [batch, 1, seq, hidden_size a])
                [Shape (Some [batch, seq]) 0, Shape (Some [batch, seq]) 1, Literal 4096]))"
    using embed_inputs_glm_10b [OF n pe be split]
    by (simp add: emb shape_lib_def shape_embedding_def token_embedding_args_def
        position_embedding_args_def shape_add_def)
  also have "\<dots> = Inr (if hidden_size a = 4096 then Some [batch, seq, 4096] else None)"
    by (simp add: shape_view_def shape_add_def)
  finally show ?thesis .
qed

lemma shape_stack_init:
  "ChatGLMModel_init shape_lib glm_10b_args = Inr (shape_stack glm_10b_args)"
  "ChatGLMModel_init shape_lib small_glm_10b_args = Inr (shape_stack small_glm_10b_args)"
  by (simp_all add: shape_stack_def ChatGLMModel_init_def
      ChatGLMDecoderLayer_init_def select_variant_def no_variant_def upt_conv_Cons
      small_glm_10b_args_def glm_10b_args_def example_args_def)

theorem glm_10b_shapes_need_hidden_size_4096_witness:
  "ChatGLMModel_init shape_lib glm_10b_args = Inr (shape_stack glm_10b_args)
   \<and> model_name glm_10b_args = ''glm_10b''
   \<and> hidden_size glm_10b_args = 4096
   \<and> embed_inputs shape_lib (shape_stack glm_10b_args) (Some [8, 100]) (Some (Some [8, 2, 100]))
       = Inr (Some [8, 100, 4096])
   \<and> ChatGLMModel_init shape_lib small_glm_10b_args = Inr (shape_stack small_glm_10b_args)
   \<and> model_name small_glm_10b_args = ''glm_10b''
   \<and> hidden_size small_glm_10b_args = 1024
   \<and> embed_inputs shape_lib (shape_stack small_glm_10b_args) (Some [8, 100])
        (Some (Some [8, 2, 100])) = Inr None"
proof -
  have n: "model_name glm_10b_args = ''glm_10b''" "model_name small_glm_10b_args = ''glm_10b''"
    and h: "hidden_size glm_10b_args = 4096" "hidden_size small_glm_10b_args = 1024"
    by (simp_all add: small_glm_10b_args_def glm_10b_args_def example_args_def)
  from glm_10b_shapes_need_hidden_size_4096 [OF shape_stack_init(1) n(1), of 8 100]
    glm_10b_shapes_need_hidden_size_4096 [OF shape_stack_init(2) n(2), of 8 100]
    shape_stack_init n h
  show ?thesis by simp
qed

section \<open>The decoder stack\<close>

lemma run_layers_no_cache:
  "run_layers lib False kv ap position_ids zs hidden_states presents = Inr (h, ps)
     \<Longrightarrow> h = hidden_states \<and> ps = presents"
  by (induction zs) (auto split: sum.splits)

lemma forward_no_cache:
  assumes "\<not> gm_use_cache m"
      and "ChatGLMModel_forward lib m input_ids position_ids kv ap = Inr (out, presents)"
  shows "\<exists>h. embed_inputs lib m input_ids position_ids = Inr h \<and> out = gm_final_norm m h
           \<and> presents = None"
  using assms
  by (auto simp: ChatGLMModel_forward_def Let_def split: sum.splits option.splits
      dest: run_layers_no_cache)

lemma run_layers_with_cache:
  "run_layers lib True kv ap position_ids zs hidden_states presents = Inr (h, ps)
     \<Longrightarrow> spec_thread_layers lib kv ap position_ids zs hidden_states = Inr h"
  by (induction zs arbitrary: hidden_states presents)
     (auto split: sum.splits option.splits)

lemma forward_with_cache:
  assumes "gm_use_cache m"
      and "ChatGLMModel_forward lib m input_ids position_ids kv ap = Inr (out, presents)"
  shows "spec_forward lib m input_ids position_ids kv ap = Inr out"
  using assms
  by (auto simp: ChatGLMModel_forward_def spec_forward_def Let_def
      split: sum.splits option.splits dest: run_layers_with_cache)

lemma example_layers:
  "gm_layers (example_model no_cache_args) =
     [projr (ChatGLMDecoderLayer_init (graph_lib 2) 0 no_cache_args),
      projr (ChatGLMDecoderLayer_init (graph_lib 2) 1 no_cache_args)]"
  by (simp add: example_model_def ChatGLMModel_init_def ChatGLMDecoderLayer_init_def
      select_variant_def no_variant_def upt_conv_Cons no_cache_args_def example_args_def)

text \<open>
  C2 at a failing input: a model of two layers built with \<open>use_cache = False\<close>. The
  source returns the final norm of the embedding: no layer's output reaches the result.
  The specification's stack, on the same input, returns something else.
\<close>

theorem forward_without_cache_skips_layers:
  "ChatGLMModel_init (graph_lib 2) no_cache_args = Inr (example_model no_cache_args)
   \<and> length (gm_layers (example_model no_cache_args)) = 2
   \<and> ChatGLMModel_forward (graph_lib 2) (example_model no_cache_args) (Input ''input_ids'') None
        no_cache_params no_attention_params =
      Inr (NormNode RmsNorm (layer_norm_args no_cache_args)
             (EmbeddingNode (token_embedding_args no_cache_args) (Input ''input_ids'')),
           None)
   \<and> spec_forward (graph_lib 2) (example_model no_cache_args) (Input ''input_ids'') None
        no_cache_params no_attention_params \<noteq>
      Inr (NormNode RmsNorm (layer_norm_args no_cache_args)
             (EmbeddingNode (token_embedding_args no_cache_args) (Input ''input_ids'')))
   \<and> \<not> isl (spec_forward (graph_lib 2) (example_model no_cache_args) (Input ''input_ids'') None
        no_cache_params no_attention_params)"
  apply (simp add: example_model_init example_layers)
  apply (simp add: example_model_def ChatGLMModel_init_def ChatGLMDecoderLayer_init_def
      select_variant_def no_variant_def upt_conv_Cons no_cache_args_def example_args_def
      ChatGLMModel_forward_def spec_forward_def embed_inputs_def ChatGLMDecoderLayer_forward_def
      graph_lib_def fill_none_def no_cache_params_def Let_def)
  done

section \<open>The head model\<close>

lemma pad_vocab_size_multiple:
  assumes "0 < tp"
  shows "tp dvd pad_vocab_size vocab tp"
    and "vocab \<le> pad_vocab_size vocab tp"
    and "pad_vocab_size vocab tp < vocab + tp"
proof -
  show "tp dvd pad_vocab_size vocab tp"
    by (simp add: pad_vocab_size_def)
  have "(vocab + tp - 1) mod tp < tp"
    using assms by simp
  moreover have "pad_vocab_size vocab tp + (vocab + tp - 1) mod tp = vocab + tp - 1"
    by (simp add: pad_vocab_size_def)
  ultimately show "vocab \<le> pad_vocab_size vocab tp" "pad_vocab_size vocab tp < vocab + tp"
    using assms by linarith+
qed

lemma forward_presents:
  "ChatGLMModel_forward lib m input_ids position_ids kv ap = Inr (h, presents)
     \<Longrightarrow> (presents \<noteq> None) = gm_use_cache m"
  by (auto simp: ChatGLMModel_forward_def Let_def split: sum.splits option.splits if_splits)

lemma head_forward_result:
  assumes "ChatGLMModel_forward lib m input_ids position_ids kv ap = Inr (h, presents)"
  shows "ChatGLMHeadModel_forward lib net m input_ids position_ids last_token_ids kv ap =
     (let lm_logits = hm_lm_head m (gather_last_token_logits lib h last_token_ids
                                     (remove_input_padding net))
      in if gm_use_cache m \<and> \<not> paged_kv_cache net
         then Inr (LogitsAndPresents lm_logits (the presents),
                   (''logits'', hm_logits_dtype m, lm_logits)
                     # mark_presents (hm_kv_dtype m) (the presents))
         else Inr (Logits lm_logits, [(''logits'', hm_logits_dtype m, lm_logits)]))"
  using assms forward_presents [OF assms]
  by (auto simp: ChatGLMHeadModel_forward_def Let_def split: option.splits)

lemma head_init_attributes:
  assumes "ChatGLMHeadModel_init lib a = Inr m"
  shows "hm_lm_head m = ColumnLinear lib (lm_head_args a)"
    and "hm_logits_dtype m = logits_dtype a"
    and "gm_use_cache m = use_cache a"
  using assms
  by (auto simp: ChatGLMHeadModel_init_def ChatGLMHeadModel.fields_def ChatGLMModel.extend_def
        ChatGLMModel_init_def Let_def
      split: sum.splits option.splits)

lemma head_forward_logits:
  assumes "ChatGLMHeadModel_init lib a = Inr m"
      and "ChatGLMModel_forward lib m input_ids position_ids kv ap = Inr (hidden_states, presents)"
  shows "\<exists>out marked.
           ChatGLMHeadModel_forward lib net m input_ids position_ids last_token_ids kv ap
             = Inr (out, marked)
         \<and> logits out =
             ColumnLinear lib (lm_head_args a)
               (gather_last_token_logits lib hidden_states last_token_ids
                  (remove_input_padding net))"
  by (simp add: head_forward_result [OF assms(2)] head_init_attributes(1) [OF assms(1)] Let_def)

lemma shape_of_logits:
  "ColumnLinear shape_lib (lm_head_args a)
     (gather_last_token_logits shape_lib (Some (lead @ [hidden_size a])) (Some (Some [batch])) rp)
   = Some [batch, pad_vocab_size (vocab_size a) (mapping_tp_size a)]"
  by (simp add: shape_lib_def shape_gather_def shape_column_linear_def lm_head_args_def)

text \<open>
  C7. For a head model built from \<open>args\<close> with a positive tensor-parallel degree, on
  any library: whenever the decoder stack returns, \<open>forward\<close> returns, and its logits
  are \<open>lm_head\<close> applied to \<open>gather_last_token_logits\<close> of the hidden states the
  stack returned and of \<open>last_token_ids\<close>; \<open>lm_head\<close> is the linear projection built
  without bias, from \<open>hidden_size\<close> to the vocabulary size padded up to the next
  multiple of the tensor-parallel degree. On shapes: when the stack returns hidden
  states with last dimension \<open>hidden_size\<close> (whatever the leading dimensions, padded or
  packed) and \<open>last_token_ids\<close> has one entry per sequence of the batch, the logits
  have one row per sequence and as many columns as the padded vocabulary size.
\<close>

theorem head_logits_one_row_per_sequence:
  assumes "ChatGLMHeadModel_init lib a = Inr m"
      and "ChatGLMModel_forward lib m input_ids position_ids kv ap = Inr (hidden_states, presents)"
      and "0 < mapping_tp_size a"
  shows "(\<exists>out marked.
            ChatGLMHeadModel_forward lib net m input_ids position_ids last_token_ids kv ap
              = Inr (out, marked)
          \<and> logits out =
              hm_lm_head m
                (gather_last_token_logits lib hidden_states last_token_ids
                   (remove_input_padding net)))
       \<and> hm_lm_head m = ColumnLinear lib (lm_head_args a)
       \<and> \<not> c_bias (lm_head_args a)
       \<and> in_features (lm_head_args a) = hidden_size a
       \<and> out_features (lm_head_args a) = pad_vocab_size (vocab_size a) (mapping_tp_size a)
       \<and> mapping_tp_size a dvd pad_vocab_size (vocab_size a) (mapping_tp_size a)
       \<and> vocab_size a \<le> pad_vocab_size (vocab_size a) (mapping_tp_size a)
       \<and> pad_vocab_size (vocab_size a) (mapping_tp_size a) < vocab_size a + mapping_tp_size a
       \<and> (\<forall>shape_model shape_ids shape_position_ids shape_kv shape_ap lead shape_presents batch.
             ChatGLMHeadModel_init shape_lib a = Inr shape_model \<longrightarrow>
             ChatGLMModel_forward shape_lib shape_model shape_ids shape_position_ids shape_kv
               shape_ap = Inr (Some (lead @ [hidden_size a]), shape_presents) \<longrightarrow>
             (\<exists>out marked.
                ChatGLMHeadModel_forward shape_lib net shape_model shape_ids shape_position_ids
                  (Some (Some [batch])) shape_kv shape_ap = Inr (out, marked)
              \<and> logits out = Some [batch, pad_vocab_size (vocab_size a) (mapping_tp_size a)]))"
proof -
  have wiring: "\<exists>out marked.
            ChatGLMHeadModel_forward lib net m input_ids position_ids last_token_ids kv ap
              = Inr (out, marked)
          \<and> logits out =
              hm_lm_head m
                (gather_last_token_logits lib hidden_states last_token_ids
                   (remove_input_padding net))"
    using head_forward_logits [OF assms(1,2)] head_init_attributes(1) [OF assms(1)] by simp
  have head: "hm_lm_head m = ColumnLinear lib (lm_head_args a)"
    by (rule head_init_attributes(1) [OF assms(1)])
  have args: "\<not> c_bias (lm_head_args a)" "in_features (lm_head_args a) = hidden_size a"
    "out_features (lm_head_args a) = pad_vocab_size (vocab_size a) (mapping_tp_size a)"
    by (simp_all add: lm_head_args_def)
  have shapes: "\<exists>out marked.
        ChatGLMHeadModel_forward shape_lib net sm sids spos (Some (Some [batch])) skv sap
          = Inr (out, marked)
      \<and> logits out = Some [batch, pad_vocab_size (vocab_size a) (mapping_tp_size a)]"
    if "ChatGLMHeadModel_init shape_lib a = Inr sm"
      and "ChatGLMModel_forward shape_lib sm sids spos skv sap
             = Inr (Some (lead @ [hidden_size a]), spresents)"
    for sm sids spos skv sap lead spresents batch
    using head_forward_logits [OF that, of net "Some (Some [batch])"]
    by (auto simp: shape_of_logits)
  from wiring head args pad_vocab_size_multiple [OF assms(3), of "vocab_size a"] shapes
  show ?thesis by blast
qed

lemma shape_model_init:
  "ChatGLMHeadModel_init shape_lib glm_10b_args = Inr (shape_model glm_10b_args)"
  "ChatGLMHeadModel_init shape_lib example_args = Inr (shape_model example_args)"
  by (simp_all add: shape_model_def ChatGLMHeadModel_init_def ChatGLMModel_init_def
      ChatGLMDecoderLayer_init_def select_variant_def no_variant_def upt_conv_Cons
      glm_10b_args_def example_args_def)

lemma shape_forward_example:
  "ChatGLMModel_forward shape_lib (shape_model example_args) (Some [8, 100]) None
     no_cache_params no_attention_params =
   Inr (Some [8, 100, 4096], Some [Some [2, 2048, 2, 128], Some [2, 2048, 2, 128]])"
  by (simp add: shape_model_def ChatGLMHeadModel_init_def ChatGLMModel_init_def
      ChatGLMDecoderLayer_init_def select_variant_def no_variant_def upt_conv_Cons
      example_args_def ChatGLMModel.extend_def ChatGLMHeadModel.fields_def
      ChatGLMModel_forward_def embed_inputs_def ChatGLMDecoderLayer_forward_def
      shape_lib_def shape_embedding_def shape_attention_def shape_add_def
      fill_none_def no_cache_params_def Let_def
      token_embedding_args_def layer_attention_args_def)

lemma graph_head_model_init:
  "ChatGLMHeadModel_init (graph_lib 2) example_args = Inr (graph_head_model example_args)"
  by (simp add: graph_head_model_def ChatGLMHeadModel_init_def ChatGLMModel_init_def
      ChatGLMDecoderLayer_init_def select_variant_def no_variant_def upt_conv_Cons
      example_args_def)

lemma graph_forward_example:
  "\<exists>hidden p0 p1.
     ChatGLMModel_forward (graph_lib 2) (graph_head_model example_args) (Input ''input_ids'') None
       no_cache_params no_attention_params = Inr (hidden, Some [p0, p1])"
  by (simp add: graph_head_model_def ChatGLMHeadModel_init_def ChatGLMModel_init_def
      ChatGLMDecoderLayer_init_def select_variant_def no_variant_def upt_conv_Cons
      example_args_def ChatGLMModel.extend_def ChatGLMHeadModel.fields_def
      ChatGLMModel_forward_def embed_inputs_def ChatGLMDecoderLayer_forward_def
      graph_lib_def fill_none_def no_cache_params_def Let_def)

theorem head_logits_one_row_per_sequence_witness:
  "ChatGLMHeadModel_init (graph_lib 2) example_args = Inr (graph_head_model example_args)
   \<and> \<not> isl (ChatGLMModel_forward (graph_lib 2) (graph_head_model example_args)
              (Input ''input_ids'') None no_cache_params no_attention_params)
   \<and> 0 < mapping_tp_size example_args
   \<and> logits (fst (example_head_forward contiguous_net)) =
       ColumnLinearNode (lm_head_args example_args)
         (GatherLastToken example_hidden_states (Some (Input ''last_token_ids'')) False)
   \<and> \<not> c_bias (lm_head_args example_args)
   \<and> out_features (lm_head_args example_args) = 65025
   \<and> ChatGLMHeadModel_init shape_lib example_args = Inr (shape_model example_args)
   \<and> ChatGLMModel_forward shape_lib (shape_model example_args) (Some [8, 100]) None
        no_cache_params no_attention_params =
      Inr (Some ([8, 100] @ [hidden_size example_args]),
           Some [Some [2, 2048, 2, 128], Some [2, 2048, 2, 128]])
   \<and> logits (fst (projr (ChatGLMHeadModel_forward shape_lib contiguous_net
                (shape_model example_args) (Some [8, 100]) None (Some (Some [8]))
                no_cache_params no_attention_params))) = Some [8, 65025]"
proof -
  have h: "hidden_size example_args = 4096" and tp: "0 < mapping_tp_size example_args"
    and pad: "pad_vocab_size (vocab_size example_args) (mapping_tp_size example_args) = 65025"
    by (simp_all add: example_args_def pad_vocab_size_def)
  from graph_forward_example obtain hidden p0 p1 where
    stack: "ChatGLMModel_forward (graph_lib 2) (graph_head_model example_args)
              (Input ''input_ids'') None no_cache_params no_attention_params
            = Inr (hidden, Some [p0, p1])"
    by blast
  then have hidden: "example_hidden_states = hidden"
    by (simp add: example_hidden_states_def)
  have sstack: "ChatGLMModel_forward shape_lib (shape_model example_args) (Some [8, 100]) None
        no_cache_params no_attention_params =
      Inr (Some ([8, 100] @ [hidden_size example_args]),
           Some [Some [2, 2048, 2, 128], Some [2, 2048, 2, 128]])"
    by (simp add: shape_forward_example h)
  note inst = head_logits_one_row_per_sequence [OF graph_head_model_init stack tp,
      of contiguous_net "Some (Input ''last_token_ids'')"]
  from inst obtain out marked where
    run: "ChatGLMHeadModel_forward (graph_lib 2) contiguous_net (graph_head_model example_args)
       (Input ''input_ids'') None (Some (Input ''last_token_ids'')) no_cache_params
       no_attention_params = Inr (out, marked)"
    and out: "logits out =
       hm_lm_head (graph_head_model example_args)
         (gather_last_token_logits (graph_lib 2) hidden (Some (Input ''last_token_ids''))
            (remove_input_padding contiguous_net))"
    by blast
  from inst have head: "hm_lm_head (graph_head_model example_args) =
      ColumnLinear (graph_lib 2) (lm_head_args example_args)"
    and bias: "\<not> c_bias (lm_head_args example_args)"
    and features: "out_features (lm_head_args example_args) = 65025"
    by (simp_all add: pad)
  from inst sstack shape_model_init(2) obtain sout smarked where
    "ChatGLMHeadModel_forward shape_lib contiguous_net (shape_model example_args)
       (Some [8, 100]) None (Some (Some [8])) no_cache_params no_attention_params
     = Inr (sout, smarked)"
    "logits sout = Some [8, 65025]"
    unfolding pad by blast
  moreover have "logits (fst (example_head_forward contiguous_net)) =
       ColumnLinearNode (lm_head_args example_args)
         (GatherLastToken example_hidden_states (Some (Input ''last_token_ids'')) False)"
    using run out head
    by (simp add: example_head_forward_def hidden graph_lib_def contiguous_net_def)
  ultimately show ?thesis
    using graph_head_model_init stack tp bias features shape_model_init(2) sstack by simp
qed

lemma mark_presents_tensors: "map (\<lambda>(name, dtype, tensor). tensor) (mark_presents d ps) = ps"
proof -
  have "map (\<lambda>(name, dtype, tensor). tensor) (mark_presents d ps) =
        map snd (zip [0 ..< length ps] ps)"
    by (simp add: mark_presents_def case_prod_unfold comp_def)
  then show ?thesis by simp
qed

lemma map_fst_zip_same_length:
  "length xs = length ys \<Longrightarrow> map (\<lambda>p. f (fst p)) (zip xs ys) = map f xs"
  by (induction xs ys rule: list_induct2) simp_all

lemma mark_presents_names:
  "map fst (mark_presents d ps) =
     map (\<lambda>i. ''present_key_value_'' @ str_nat i) [0 ..< length ps]"
proof -
  have "map fst (mark_presents d ps) =
        map (\<lambda>p. ''present_key_value_'' @ str_nat (fst p)) (zip [0 ..< length ps] ps)"
    by (simp add: mark_presents_def case_prod_unfold)
  also have "\<dots> = map (\<lambda>i. ''present_key_value_'' @ str_nat i) [0 ..< length ps]"
    by (rule map_fst_zip_same_length) simp
  finally show ?thesis .
qed

text \<open>
  C10. When \<open>forward\<close> of the head model returns: if the cache is in use and the paged
  layout is disabled, the result is the tuple of the logits and the presents of the
  decoder stack, and after the logits every present is marked as an output, in order,
  under the name \<open>present_key_value_i\<close>; in every other case the result is the logits
  alone and they are the only marked output.
\<close>

theorem head_forward_presents_iff:
  assumes "ChatGLMHeadModel_forward lib net m input_ids position_ids last_token_ids kv ap =
             Inr (out, marked)"
  shows "if gm_use_cache m \<and> paged_kv_cache net = False
         then \<exists>hidden presents.
                ChatGLMModel_forward lib m input_ids position_ids kv ap =
                  Inr (hidden, Some presents)
              \<and> out = LogitsAndPresents (logits out) presents
              \<and> marked = (''logits'', hm_logits_dtype m, logits out)
                           # mark_presents (hm_kv_dtype m) presents
              \<and> map (\<lambda>(name, dtype, tensor). tensor) (mark_presents (hm_kv_dtype m) presents)
                  = presents
              \<and> map fst (mark_presents (hm_kv_dtype m) presents) =
                  map (\<lambda>i. ''present_key_value_'' @ str_nat i) [0 ..< length presents]
         else out = Logits (logits out)
              \<and> marked = [(''logits'', hm_logits_dtype m, logits out)]"
proof -
  from assms obtain hidden presents
    where fw: "ChatGLMModel_forward lib m input_ids position_ids kv ap = Inr (hidden, presents)"
    by (auto simp: ChatGLMHeadModel_forward_def split: sum.splits)
  show ?thesis
  proof (cases "gm_use_cache m \<and> paged_kv_cache net = False")
    case True
    with forward_presents [OF fw] obtain ps where ps: "presents = Some ps" by auto
    from assms True have
      "out = LogitsAndPresents (logits out) ps
       \<and> marked = (''logits'', hm_logits_dtype m, logits out) # mark_presents (hm_kv_dtype m) ps"
      by (auto simp: head_forward_result [OF fw] ps Let_def)
    with True fw ps show ?thesis
      by (simp add: mark_presents_tensors mark_presents_names)
  next
    case False
    with assms show ?thesis
      by (auto simp: head_forward_result [OF fw] Let_def)
  qed
qed

lemma str_nat_small:
  "str_nat 0 = ''0''" "str_nat 1 = ''1''" "str_nat (Suc 0) = ''1''" "str_nat 2 = ''2''"
  by (simp_all add: str_nat.simps)

theorem head_forward_presents_iff_witness:
  "ChatGLMHeadModel_forward (graph_lib 2) contiguous_net (graph_head_model example_args)
     (Input ''input_ids'') None (Some (Input ''last_token_ids'')) no_cache_params no_attention_params
     = Inr (example_head_forward contiguous_net)
   \<and> gm_use_cache (graph_head_model example_args)
   \<and> paged_kv_cache contiguous_net = False
   \<and> map fst (snd (example_head_forward contiguous_net)) =
       [''logits'', ''present_key_value_0'', ''present_key_value_1'']
   \<and> (case fst (example_head_forward contiguous_net) of
         LogitsAndPresents lm_logits presents \<Rightarrow>
           map (\<lambda>(name, dtype, tensor). tensor) (snd (example_head_forward contiguous_net))
             = lm_logits # presents
       | Logits lm_logits \<Rightarrow> False)"
proof -
  from graph_forward_example obtain hidden p0 p1 where
    fw: "ChatGLMModel_forward (graph_lib 2) (graph_head_model example_args) (Input ''input_ids'')
           None no_cache_params no_attention_params = Inr (hidden, Some [p0, p1])"
    by blast
  have uc: "gm_use_cache (graph_head_model example_args)"
    using head_init_attributes(3) [OF graph_head_model_init] by (simp add: example_args_def)
  have paged: "paged_kv_cache contiguous_net = False"
    by (simp add: contiguous_net_def)
  have "\<exists>r. ChatGLMHeadModel_forward (graph_lib 2) contiguous_net (graph_head_model example_args)
     (Input ''input_ids'') None (Some (Input ''last_token_ids'')) no_cache_params no_attention_params
     = Inr r"
    by (simp add: head_forward_result [OF fw] Let_def uc paged)
  moreover obtain out marked where r: "example_head_forward contiguous_net = (out, marked)"
    by (cases "example_head_forward contiguous_net")
  ultimately have run: "ChatGLMHeadModel_forward (graph_lib 2) contiguous_net
     (graph_head_model example_args) (Input ''input_ids'') None (Some (Input ''last_token_ids''))
     no_cache_params no_attention_params = Inr (out, marked)"
    by (auto simp: example_head_forward_def)
  from head_forward_presents_iff [OF run] uc paged fw
  obtain lm_logits where out: "out = LogitsAndPresents lm_logits [p0, p1]"
    and marked: "marked =
          (''logits'', hm_logits_dtype (graph_head_model example_args), lm_logits)
          # mark_presents (hm_kv_dtype (graph_head_model example_args)) [p0, p1]"
    by auto
  have "mark_presents d [p0, p1] =
      [(''present_key_value_0'', d, p0), (''present_key_value_1'', d, p1)]" for d
    by (simp add: mark_presents_def upt_conv_Cons str_nat_small)
  with run uc paged show ?thesis
    by (simp add: r out marked)
qed

section \<open>The example script\<close>

lemma main_mismatch:
  assumes "tensor_parallel (builder config) \<noteq> mpi_world_size rt"
  shows "main cl config rt =
           ([SetLogLevel (cli_log_level cl), ReadConfig (cli_engine_dir cl)],
            Some (AssertionError
                    (world_size_message (tensor_parallel (builder config)) (mpi_world_size rt))))"
  using assms by (simp add: main_def)

lemma main_zero_divisor:
  assumes "tensor_parallel (builder config) = mpi_world_size rt"
      and "mpi_world_size rt = 0 \<or> gpus_per_node rt = 0"
  shows "main cl config rt =
           ([SetLogLevel (cli_log_level cl), ReadConfig (cli_engine_dir cl)],
            Some ZeroDivisionError)"
  using assms by (auto simp: main_def Let_def)

lemma main_runs:
  assumes "tensor_parallel (builder config) = mpi_world_size rt"
      and "mpi_world_size rt \<noteq> 0" and "gpus_per_node rt \<noteq> 0"
  shows "snd (main cl config rt) = None"
    and "Decode \<in> set (fst (main cl config rt))"
    and "\<exists>model_config world_size runtime_rank.
           CreateSession model_config world_size runtime_rank \<in> set (fst (main cl config rt))"
  using assms by (simp_all add: main_def Let_def)

text \<open>
  C8, as the code has it. The script ends with the \<open>AssertionError\<close> of line 62, with
  its message, exactly when the tensor-parallel degree of the descriptor differs from
  the MPI world size; it has then made no call beyond setting the log level and reading
  the descriptor. It runs to the end exactly when the two are equal and neither the
  world size nor the number of GPUs per node is zero, and only then is a session created
  and a generation attempted.
\<close>

theorem world_size_mismatch_assertion:
  "(snd (main cl config rt) =
      Some (AssertionError
              (world_size_message (tensor_parallel (builder config)) (mpi_world_size rt))))
     = (tensor_parallel (builder config) \<noteq> mpi_world_size rt)
   \<and> (snd (main cl config rt) = None)
     = (tensor_parallel (builder config) = mpi_world_size rt
        \<and> mpi_world_size rt \<noteq> 0 \<and> gpus_per_node rt \<noteq> 0)
   \<and> (Decode \<in> set (fst (main cl config rt))) = (snd (main cl config rt) = None)
   \<and> (\<exists>model_config world_size runtime_rank.
         CreateSession model_config world_size runtime_rank \<in> set (fst (main cl config rt)))
     = (snd (main cl config rt) = None)
   \<and> (snd (main cl config rt) = None
       \<or> fst (main cl config rt) =
           [SetLogLevel (cli_log_level cl), ReadConfig (cli_engine_dir cl)])"
proof (cases "tensor_parallel (builder config) = mpi_world_size rt")
  case False
  then show ?thesis
    by (simp add: main_mismatch)
next
  case True
  show ?thesis
  proof (cases "mpi_world_size rt = 0 \<or> gpus_per_node rt = 0")
    case True
    with \<open>tensor_parallel (builder config) = mpi_world_size rt\<close> show ?thesis
      by (auto simp: main_zero_divisor)
  next
    case False
    with \<open>tensor_parallel (builder config) = mpi_world_size rt\<close>
    have "snd (main cl config rt) = None"
      and "Decode \<in> set (fst (main cl config rt))"
      and "\<exists>model_config world_size runtime_rank.
             CreateSession model_config world_size runtime_rank \<in> set (fst (main cl config rt))"
      using main_runs [of config rt cl] by simp_all
    with True False show ?thesis by simp
  qed
qed

theorem world_size_mismatch_assertion_witness:
  "tensor_parallel (builder example_descriptor) = mpi_world_size two_processes
   \<and> snd (main example_cli example_descriptor two_processes) = None
   \<and> Decode \<in> set (fst (main example_cli example_descriptor two_processes))
   \<and> tensor_parallel (builder example_descriptor) \<noteq> mpi_world_size single_process
   \<and> snd (main example_cli example_descriptor single_process) =
       Some (AssertionError (world_size_message 2 1))
   \<and> Decode \<notin> set (fst (main example_cli example_descriptor single_process))"
proof -
  have eq: "tensor_parallel (builder example_descriptor) = mpi_world_size two_processes"
    and nz: "mpi_world_size two_processes \<noteq> 0" "gpus_per_node two_processes \<noteq> 0"
    and ne: "tensor_parallel (builder example_descriptor) \<noteq> mpi_world_size single_process"
    and ws: "tensor_parallel (builder example_descriptor) = 2" "mpi_world_size single_process = 1"
    by (simp_all add: example_descriptor_def two_processes_def single_process_def)
  from world_size_mismatch_assertion [of example_cli example_descriptor two_processes]
    world_size_mismatch_assertion [of example_cli example_descriptor single_process]
    eq nz ne ws
  show ?thesis by auto
qed

text \<open>
  The sentence of the specification, that the failure is a \<open>ConfigurationError\<close>, does
  not hold of the code: an engine built for two ranks, run by one process.
\<close>

theorem world_size_mismatch_not_configuration_error:
  "tensor_parallel (builder example_descriptor) \<noteq> mpi_world_size single_process
   \<and> main example_cli example_descriptor single_process =
       ([SetLogLevel ''error'', ReadConfig ''bloom_outputs''],
        Some (AssertionError ''Engine world size (2) != Runtime world size (1)''))
   \<and> snd (main example_cli example_descriptor single_process) \<noteq> Some ConfigurationError"
  by (simp add: main_def example_descriptor_def single_process_def example_cli_def
      world_size_message_def str_int_def str_nat.simps)

end
